theory Spec2Isabelle
  imports Main "HOL-Library.Char_ord" "HOL-Library.List_Lexorder"
begin

section \<open>Data model\<close>

text \<open>
  A \<^verbatim>\<open>pathlib.Path\<close> in parsed form: whether it is anchored at the root, and its
  components. \<^verbatim>\<open>Path(x)\<close> and \<^verbatim>\<open>str(p)\<close> convert between a string and this form and
  are identities here.
\<close>

datatype path = Path (anchored: bool) (parts: "string list")

text \<open>\<^verbatim>\<open>p.parent\<close>: the path without its last component (the root and the empty path are
  their own parents).\<close>

definition parent :: "path \<Rightarrow> path" where
  "parent p = Path (anchored p) (butlast (parts p))"

text \<open>\<^verbatim>\<open>kedro.io.core.Version\<close>: a named tuple of the load and the save identifier, either of
  which may be \<^verbatim>\<open>None\<close>.\<close>

datatype Version = Version (load: "string option") (save: "string option")

text \<open>The attributes of a \<^verbatim>\<open>FeatherLocalDataSet\<close> instance: \<^verbatim>\<open>_filepath\<close>,
  \<^verbatim>\<open>_load_args\<close> and \<^verbatim>\<open>_version\<close>. Option values are opaque (\<open>'o\<close>).\<close>

record 'o FeatherLocalDataSet =
  filepath :: path
  load_args :: "string \<rightharpoonup> 'o"
  version :: "Version option"

text \<open>
  Exceptions. \<open>OtherError\<close> stands for every exception class that is not a
  \<^verbatim>\<open>DataSetError\<close> (an \<^verbatim>\<open>OSError\<close>, a \<^verbatim>\<open>ValueError\<close>, ...), with the class name.
  The payload \<open>'d\<close> is what a data set error carries.
\<close>

datatype 'd exn =
    DataSetError 'd
  | VersionNotFoundError 'd
  | InconsistentVersionError 'd
  | OtherError string

text \<open>
  Modelled from the spec: the exception classes of \<^verbatim>\<open>kedro.io.core\<close> are not in the
  sources. The spec's taxonomy makes \<^verbatim>\<open>DataSetError\<close> the umbrella under which
  \<^verbatim>\<open>VersionNotFoundError\<close> and \<^verbatim>\<open>InconsistentVersionError\<close> are surfaced, so an
  \<^verbatim>\<open>except DataSetError\<close> clause catches the three of them and nothing else.
\<close>

fun isinstance_DataSetError :: "'d exn \<Rightarrow> bool" where
  "isinstance_DataSetError (DataSetError d) = True"
| "isinstance_DataSetError (VersionNotFoundError d) = True"
| "isinstance_DataSetError (InconsistentVersionError d) = True"
| "isinstance_DataSetError (OtherError n) = False"

text \<open>The values of the mapping \<^verbatim>\<open>_describe\<close> returns.\<close>

datatype 'o config =
    CPath path
  | CArgs "string \<rightharpoonup> 'o"
  | CVersion "Version option"

section \<open>Computations with state and exceptions\<close>

text \<open>
  A method runs on a state and returns the raised exception or the result, with the state
  it leaves. The state is the pair of the instance (\<^verbatim>\<open>self\<close>) and of the world outside
  it (\<open>'w\<close>: the file system, the clock).
\<close>

type_synonym ('a, 'd, 's) comp = "'s \<Rightarrow> ('d exn + 'a) \<times> 's"

definition bind_exn :: "('a, 'd, 's) comp \<Rightarrow> ('a \<Rightarrow> ('b, 'd, 's) comp) \<Rightarrow> ('b, 'd, 's) comp" where
  "bind_exn m f s = (case m s of (Inl e, s') \<Rightarrow> (Inl e, s') | (Inr a, s') \<Rightarrow> f a s')"

text \<open>
  What \<^verbatim>\<open>FeatherLocalDataSet\<close> calls and does not define: the helpers it inherits from
  \<^verbatim>\<open>AbstractVersionedDataSet\<close> (\<^verbatim>\<open>_get_load_path\<close>, \<^verbatim>\<open>_get_save_path\<close>,
  \<^verbatim>\<open>_check_paths_consistency\<close>), \<^verbatim>\<open>pathlib\<close> (\<^verbatim>\<open>absolute\<close>, \<^verbatim>\<open>mkdir\<close> with its
  \<^verbatim>\<open>parents\<close> and \<^verbatim>\<open>exist_ok\<close> flags, \<^verbatim>\<open>is_file\<close>) and \<^verbatim>\<open>pandas\<close>
  (\<^verbatim>\<open>read_feather\<close>, \<^verbatim>\<open>to_feather\<close>). The methods below take them as a parameter.
\<close>

record ('o, 'v, 'd, 'w) env =
  get_load_path :: "(path, 'd, 'o FeatherLocalDataSet \<times> 'w) comp"
  get_save_path :: "(path, 'd, 'o FeatherLocalDataSet \<times> 'w) comp"
  check_paths_consistency :: "path \<Rightarrow> path \<Rightarrow> (unit, 'd, 'o FeatherLocalDataSet \<times> 'w) comp"
  absolute :: "path \<Rightarrow> (path, 'd, 'o FeatherLocalDataSet \<times> 'w) comp"
  mkdir :: "path \<Rightarrow> bool \<Rightarrow> bool \<Rightarrow> (unit, 'd, 'o FeatherLocalDataSet \<times> 'w) comp"
  is_file :: "path \<Rightarrow> (bool, 'd, 'o FeatherLocalDataSet \<times> 'w) comp"
  read_feather :: "path \<Rightarrow> (string \<rightharpoonup> 'o) \<Rightarrow> ('v, 'd, 'o FeatherLocalDataSet \<times> 'w) comp"
  to_feather :: "'v \<Rightarrow> path \<Rightarrow> (unit, 'd, 'o FeatherLocalDataSet \<times> 'w) comp"

section \<open>\<^verbatim>\<open>FeatherLocalDataSet\<close>\<close>

definition default_load_args :: "string \<rightharpoonup> 'o" where
  "default_load_args = Map.empty"

text \<open>\<^verbatim>\<open>__init__\<close>: \<^verbatim>\<open>{**default_load_args, **load_args}\<close> is the map \<open>++\<close>, whose right
  operand wins.\<close>

definition FeatherLocalDataSet_init ::
  "path \<Rightarrow> (string \<rightharpoonup> 'o) option \<Rightarrow> Version option \<Rightarrow> 'o FeatherLocalDataSet" where
  "FeatherLocalDataSet_init fp largs ver =
     \<lparr> filepath = fp,
       load_args = (case largs of Some u \<Rightarrow> default_load_args ++ u | None \<Rightarrow> default_load_args),
       version = ver \<rparr>"

text \<open>\<^verbatim>\<open>_load\<close>.\<close>

definition FeatherLocalDataSet_load ::
  "('o, 'v, 'd, 'w) env \<Rightarrow> ('v, 'd, 'o FeatherLocalDataSet \<times> 'w) comp" where
  "FeatherLocalDataSet_load E =
     bind_exn (get_load_path E) (\<lambda>load_path s.
       read_feather E load_path (load_args (fst s)) s)"

text \<open>\<^verbatim>\<open>_save\<close>.\<close>

definition FeatherLocalDataSet_save ::
  "('o, 'v, 'd, 'w) env \<Rightarrow> 'v \<Rightarrow> (unit, 'd, 'o FeatherLocalDataSet \<times> 'w) comp" where
  "FeatherLocalDataSet_save E data =
     bind_exn (get_save_path E) (\<lambda>save_path.
     bind_exn (mkdir E (parent save_path) True True) (\<lambda>_.
     bind_exn (to_feather E data save_path) (\<lambda>_.
     bind_exn (get_load_path E) (\<lambda>load_path.
     bind_exn (absolute E load_path) (\<lambda>abs_load.
     bind_exn (absolute E save_path) (\<lambda>abs_save.
       check_paths_consistency E abs_load abs_save))))))"

text \<open>\<^verbatim>\<open>_exists\<close>: only the call of \<^verbatim>\<open>_get_load_path\<close> is inside the \<^verbatim>\<open>try\<close>.\<close>

definition FeatherLocalDataSet_exists ::
  "('o, 'v, 'd, 'w) env \<Rightarrow> (bool, 'd, 'o FeatherLocalDataSet \<times> 'w) comp" where
  "FeatherLocalDataSet_exists E s =
     (case get_load_path E s of
        (Inl e, s') \<Rightarrow> if isinstance_DataSetError e then (Inr False, s') else (Inl e, s')
      | (Inr p, s') \<Rightarrow> is_file E p s')"

text \<open>\<^verbatim>\<open>_describe\<close>: a new dictionary of the three attributes.\<close>

definition describe_dict :: "'o FeatherLocalDataSet \<Rightarrow> (string \<rightharpoonup> 'o config)" where
  "describe_dict self =
     [''filepath'' \<mapsto> CPath (filepath self),
      ''load_args'' \<mapsto> CArgs (load_args self),
      ''version'' \<mapsto> CVersion (version self)]"

definition FeatherLocalDataSet_describe ::
  "(string \<rightharpoonup> 'o config, 'd, 'o FeatherLocalDataSet \<times> 'w) comp" where
  "FeatherLocalDataSet_describe s = (Inr (describe_dict (fst s)), s)"

section \<open>The world outside the instance\<close>

text \<open>
  The file system is a list of entries, each an absolute path (its components) with a
  directory or a regular file and its content; the first entry for a path is the current
  one and the root always is a directory. The world also has the working directory and
  the time stamp the clock would give now.
\<close>

datatype 'b node = Dir | File 'b

record 'b world =
  cwd :: "string list"
  fs :: "(string list \<times> 'b node) list"
  now :: string

definition abs_key :: "'b world \<Rightarrow> path \<Rightarrow> string list" where
  "abs_key w p = (if anchored p then parts p else cwd w @ parts p)"

definition node_at :: "(string list \<times> 'b node) list \<Rightarrow> string list \<Rightarrow> 'b node option" where
  "node_at t k = (if k = [] then Some Dir else map_of t k)"

text \<open>\<^verbatim>\<open>os.mkdir\<close>.\<close>

definition os_mkdir ::
  "string list \<Rightarrow> (string list \<times> 'b node) list \<Rightarrow> string + (string list \<times> 'b node) list" where
  "os_mkdir k t =
     (case node_at t k of
        Some n \<Rightarrow> Inl ''FileExistsError''
      | None \<Rightarrow>
          (case node_at t (butlast k) of
             None \<Rightarrow> Inl ''FileNotFoundError''
           | Some (File b) \<Rightarrow> Inl ''NotADirectoryError''
           | Some Dir \<Rightarrow> Inr ((k, Dir) # t)))"

text \<open>
  \<^verbatim>\<open>Path.mkdir(parents, exist_ok)\<close>: \<^verbatim>\<open>os.mkdir\<close>; on \<^verbatim>\<open>FileNotFoundError\<close> with
  \<^verbatim>\<open>parents\<close> set, the parent is made with both flags set and the directory is made
  again with \<^verbatim>\<open>parents\<close> unset; any other \<^verbatim>\<open>OSError\<close> is dropped when \<^verbatim>\<open>exist_ok\<close>
  is set and the path is a directory.
\<close>

definition mkdir_leaf ::
  "bool \<Rightarrow> string list \<Rightarrow> (string list \<times> 'b node) list \<Rightarrow> string + (string list \<times> 'b node) list" where
  "mkdir_leaf exist_ok k t =
     (case os_mkdir k t of
        Inr t' \<Rightarrow> Inr t'
      | Inl e \<Rightarrow>
          if e = ''FileNotFoundError'' then Inl e
          else if \<not> exist_ok \<or> node_at t k \<noteq> Some Dir then Inl e
          else Inr t)"

function mkdir_parents ::
  "bool \<Rightarrow> string list \<Rightarrow> (string list \<times> 'b node) list \<Rightarrow> string + (string list \<times> 'b node) list" where
  "mkdir_parents exist_ok k t =
     (case os_mkdir k t of
        Inr t' \<Rightarrow> Inr t'
      | Inl e \<Rightarrow>
          if e = ''FileNotFoundError'' then
            (if k = [] then Inl e
             else (case mkdir_parents True (butlast k) t of
                     Inl e' \<Rightarrow> Inl e'
                   | Inr t' \<Rightarrow> mkdir_leaf exist_ok k t'))
          else if \<not> exist_ok \<or> node_at t k \<noteq> Some Dir then Inl e
          else Inr t)"
  by pat_completeness auto
termination
  by (relation "measure (\<lambda>(exist_ok, k, t). length k)") auto

declare mkdir_parents.simps [simp del]

definition path_mkdir ::
  "bool \<Rightarrow> bool \<Rightarrow> string list \<Rightarrow> (string list \<times> 'b node) list \<Rightarrow> string + (string list \<times> 'b node) list" where
  "path_mkdir parents exist_ok k t =
     (if parents then mkdir_parents exist_ok k t else mkdir_leaf exist_ok k t)"

text \<open>Opening a file for writing, and for reading.\<close>

definition fs_write ::
  "string list \<Rightarrow> 'b \<Rightarrow> (string list \<times> 'b node) list \<Rightarrow> string + (string list \<times> 'b node) list" where
  "fs_write k b t =
     (case node_at t k of
        Some Dir \<Rightarrow> Inl ''IsADirectoryError''
      | _ \<Rightarrow>
          (case node_at t (butlast k) of
             None \<Rightarrow> Inl ''FileNotFoundError''
           | Some (File c) \<Rightarrow> Inl ''NotADirectoryError''
           | Some Dir \<Rightarrow> Inr ((k, File b) # t)))"

definition fs_read :: "string list \<Rightarrow> (string list \<times> 'b node) list \<Rightarrow> string + 'b" where
  "fs_read k t =
     (case node_at t k of
        None \<Rightarrow> Inl ''FileNotFoundError''
      | Some Dir \<Rightarrow> Inl ''IsADirectoryError''
      | Some (File b) \<Rightarrow> Inr b)"

definition fs_is_file :: "'b world \<Rightarrow> path \<Rightarrow> bool" where
  "fs_is_file w p = (case node_at (fs w) (abs_key w p) of Some (File b) \<Rightarrow> True | _ \<Rightarrow> False)"

text \<open>The names of the entries directly under a directory.\<close>

definition children :: "(string list \<times> 'b node) list \<Rightarrow> string list \<Rightarrow> string list" where
  "children t d = remdups (map (\<lambda>e. last (fst e)) (filter (\<lambda>e. fst e \<noteq> [] \<and> butlast (fst e) = d) t))"

text \<open>
  The feather format, as far as the data set sees it: \<^verbatim>\<open>to_feather\<close> turns a value into
  the content of a file or refuses it, \<^verbatim>\<open>read_feather\<close> turns a content back into a
  value under the options it is given. Both are parameters.
\<close>

record ('v, 'o, 'b) codec =
  encode :: "'v \<Rightarrow> string + 'b"
  decode :: "'b \<Rightarrow> (string \<rightharpoonup> 'o) \<Rightarrow> string + 'v"

type_synonym ('a, 'o, 'b) core_comp =
  "('a, string \<times> (string \<rightharpoonup> 'o config), 'o FeatherLocalDataSet \<times> 'b world) comp"

definition core_absolute :: "path \<Rightarrow> (path, 'o, 'b) core_comp" where
  "core_absolute p s = (Inr (Path True (abs_key (snd s) p)), s)"

definition core_mkdir :: "path \<Rightarrow> bool \<Rightarrow> bool \<Rightarrow> (unit, 'o, 'b) core_comp" where
  "core_mkdir p parents exist_ok s =
     (case path_mkdir parents exist_ok (abs_key (snd s) p) (fs (snd s)) of
        Inl e \<Rightarrow> (Inl (OtherError e), s)
      | Inr t \<Rightarrow> (Inr (), (fst s, (snd s)\<lparr>fs := t\<rparr>)))"

definition core_is_file :: "path \<Rightarrow> (bool, 'o, 'b) core_comp" where
  "core_is_file p s = (Inr (fs_is_file (snd s) p), s)"

definition core_to_feather :: "('v, 'o, 'b) codec \<Rightarrow> 'v \<Rightarrow> path \<Rightarrow> (unit, 'o, 'b) core_comp" where
  "core_to_feather C data p s =
     (case encode C data of
        Inl e \<Rightarrow> (Inl (OtherError e), s)
      | Inr b \<Rightarrow>
          (case fs_write (abs_key (snd s) p) b (fs (snd s)) of
             Inl e \<Rightarrow> (Inl (OtherError e), s)
           | Inr t \<Rightarrow> (Inr (), (fst s, (snd s)\<lparr>fs := t\<rparr>))))"

definition core_read_feather ::
  "('v, 'o, 'b) codec \<Rightarrow> path \<Rightarrow> (string \<rightharpoonup> 'o) \<Rightarrow> ('v, 'o, 'b) core_comp" where
  "core_read_feather C p args s =
     (case fs_read (abs_key (snd s) p) (fs (snd s)) of
        Inl e \<Rightarrow> (Inl (OtherError e), s)
      | Inr b \<Rightarrow>
          (case decode C b args of
             Inl e \<Rightarrow> (Inl (OtherError e), s)
           | Inr v \<Rightarrow> (Inr v, s)))"

section \<open>The versioned data set contract\<close>

text \<open>
  Modelled from the spec: \<^verbatim>\<open>AbstractVersionedDataSet\<close> (\<^verbatim>\<open>kedro.io.core\<close>) is not in
  the sources. The definitions of this section follow the spec's sections 4.1 to 4.3, 6
  and 7.
\<close>

text \<open>Modelled from the spec: the layout of a versioned data set,
  \<^verbatim>\<open><base_path>/<version_id>/<base_filename>\<close>.\<close>

definition get_versioned_path :: "path \<Rightarrow> string \<Rightarrow> path" where
  "get_versioned_path fp v =
     Path (anchored fp) (parts fp @ [v] @ (if parts fp = [] then [] else [last (parts fp)]))"

text \<open>Modelled from the spec: a data set error carries the type of the data set and its
  \<^verbatim>\<open>describe()\<close> output.\<close>

definition describe_payload :: "'o FeatherLocalDataSet \<Rightarrow> string \<times> (string \<rightharpoonup> 'o config)" where
  "describe_payload self = (''FeatherLocalDataSet'', describe_dict self)"

text \<open>
  Modelled from the spec: the candidate version directories under the data set's path,
  sorted descending; the latest version is the first of them that contains the target
  file name.
\<close>

definition version_dirs :: "'b world \<Rightarrow> path \<Rightarrow> string list" where
  "version_dirs w fp =
     filter (\<lambda>v. node_at (fs w) (abs_key w fp @ [v]) = Some Dir) (children (fs w) (abs_key w fp))"

definition latest_version :: "'b world \<Rightarrow> path \<Rightarrow> string option" where
  "latest_version w fp =
     find (\<lambda>v. fs_is_file w (get_versioned_path fp v)) (rev (sort (version_dirs w fp)))"

text \<open>
  Modelled from the spec: \<^verbatim>\<open>resolve_load_path\<close>. Without a version it is the base path;
  with an explicit load identifier it is the base path nested under that identifier
  (the data set asks for the path without requiring that the file exists: the spec's
  consistency violation, forced by different identifiers, needs it so); with an unset
  load identifier it is the path under the latest version, and
  \<^verbatim>\<open>VersionNotFoundError\<close> when there is none.
\<close>

definition core_get_load_path :: "(path, 'o, 'b) core_comp" where
  "core_get_load_path s =
     (case version (fst s) of
        None \<Rightarrow> (Inr (filepath (fst s)), s)
      | Some ver \<Rightarrow>
          (case load ver of
             Some i \<Rightarrow> (Inr (get_versioned_path (filepath (fst s)) i), s)
           | None \<Rightarrow>
               (case latest_version (snd s) (filepath (fst s)) of
                  None \<Rightarrow> (Inl (VersionNotFoundError (describe_payload (fst s))), s)
                | Some v \<Rightarrow> (Inr (get_versioned_path (filepath (fst s)) v), s))))"

text \<open>
  Modelled from the spec: \<^verbatim>\<open>resolve_save_path\<close>. Without a version it is the base path;
  with one it is the base path nested under the save identifier, a newly generated one
  (the clock's) when it is unset, and the intermediate directories are created as needed.
\<close>

definition core_get_save_path :: "(path, 'o, 'b) core_comp" where
  "core_get_save_path s =
     (case version (fst s) of
        None \<Rightarrow> (Inr (filepath (fst s)), s)
      | Some ver \<Rightarrow>
          (let p = get_versioned_path (filepath (fst s))
                     (case save ver of Some i \<Rightarrow> i | None \<Rightarrow> now (snd s))
           in case path_mkdir True True (abs_key (snd s) (parent p)) (fs (snd s)) of
                Inl e \<Rightarrow> (Inl (OtherError e), s)
              | Inr t \<Rightarrow> (Inr p, (fst s, (snd s)\<lparr>fs := t\<rparr>))))"

text \<open>Modelled from the spec: the consistency checker fails with
  \<^verbatim>\<open>InconsistentVersionError\<close> if the two paths differ.\<close>

definition core_check_paths_consistency :: "path \<Rightarrow> path \<Rightarrow> (unit, 'o, 'b) core_comp" where
  "core_check_paths_consistency load_path save_path s =
     (if load_path \<noteq> save_path
      then (Inl (InconsistentVersionError (describe_payload (fst s))), s)
      else (Inr (), s))"

text \<open>The environment of a data set on this world, for a codec \<open>C\<close>.\<close>

definition core_env ::
  "('v, 'o, 'b) codec \<Rightarrow> ('o, 'v, string \<times> (string \<rightharpoonup> 'o config), 'b world) env" where
  "core_env C =
     \<lparr> get_load_path = core_get_load_path,
       get_save_path = core_get_save_path,
       check_paths_consistency = core_check_paths_consistency,
       absolute = core_absolute,
       mkdir = core_mkdir,
       is_file = core_is_file,
       read_feather = core_read_feather C,
       to_feather = core_to_feather C \<rparr>"

text \<open>
  Modelled from the spec: the public \<^verbatim>\<open>load()\<close> of the contract. It runs the data set's
  \<^verbatim>\<open>_load\<close> and wraps an error that is not yet a data set error into \<^verbatim>\<open>DataSetError\<close>
  with the description attached.
\<close>

definition DataSet_load ::
  "('v, 'o, 'b) codec \<Rightarrow> ('v, 'o, 'b) core_comp" where
  "DataSet_load C s =
     (case FeatherLocalDataSet_load (core_env C) s of
        (Inl e, s') \<Rightarrow>
          (Inl (if isinstance_DataSetError e then e else DataSetError (describe_payload (fst s'))), s')
      | (Inr v, s') \<Rightarrow> (Inr v, s'))"

text \<open>What a data set error carries.\<close>

fun exn_payload :: "'d exn \<Rightarrow> 'd option" where
  "exn_payload (DataSetError d) = Some d"
| "exn_payload (VersionNotFoundError d) = Some d"
| "exn_payload (InconsistentVersionError d) = Some d"
| "exn_payload (OtherError n) = None"

section \<open>Notions the properties are stated with\<close>

text \<open>A computation leaves the instance as it found it.\<close>

definition keeps_self :: "('a, 'd, 'o FeatherLocalDataSet \<times> 'w) comp \<Rightarrow> bool" where
  "keeps_self m = (\<forall>s. fst (snd (m s)) = fst s)"

definition env_keeps_self :: "('o, 'v, 'd, 'w) env \<Rightarrow> bool" where
  "env_keeps_self E =
     (keeps_self (get_load_path E) \<and> keeps_self (get_save_path E)
      \<and> (\<forall>a b. keeps_self (check_paths_consistency E a b))
      \<and> (\<forall>p. keeps_self (absolute E p))
      \<and> (\<forall>p x y. keeps_self (mkdir E p x y))
      \<and> (\<forall>p. keeps_self (is_file E p))
      \<and> (\<forall>p a. keeps_self (read_feather E p a))
      \<and> (\<forall>v p. keeps_self (to_feather E v p)))"

text \<open>Nothing was ever saved for a data set at \<open>fp\<close>: the file system has no regular
  file at \<open>fp\<close> or below it.\<close>

definition never_saved :: "'b world \<Rightarrow> path \<Rightarrow> bool" where
  "never_saved w fp =
     (\<forall>e \<in> set (fs w). take (length (abs_key w fp)) (fst e) = abs_key w fp \<longrightarrow> snd e = Dir)"

section \<open>Examples\<close>

text \<open>
  A small codec for frames given as columns with one value each: frames with a repeated
  column name are refused, and the option \<^verbatim>\<open>columns\<close> selects the columns to read.
\<close>

definition frame_codec :: "((string \<times> int) list, string list, (string \<times> int) list) codec" where
  "frame_codec =
     \<lparr> encode = (\<lambda>v. if distinct (map fst v) then Inr v else Inl ''ValueError''),
       decode = (\<lambda>b args. case args ''columns'' of
                             None \<Rightarrow> Inr b
                           | Some cs \<Rightarrow> Inr (filter (\<lambda>c. fst c \<in> set cs) b)) \<rparr>"

definition empty_world :: "(string \<times> int) list world" where
  "empty_world = \<lparr> cwd = [''home''], fs = [], now = ''2019-01-01'' \<rparr>"

definition saved_world :: "(string \<times> int) list world" where
  "saved_world =
     \<lparr> cwd = [''home''],
       fs = [([''home'', ''data'', ''test.feather''], File [(''a'', 1), (''b'', 2)]),
             ([''home'', ''data''], Dir),
             ([''home''], Dir)],
       now = ''2019-01-01'' \<rparr>"

definition plain_data_set :: "string list FeatherLocalDataSet" where
  "plain_data_set = FeatherLocalDataSet_init (Path False [''data'', ''test.feather'']) None None"

definition columns_data_set :: "string list FeatherLocalDataSet" where
  "columns_data_set =
     FeatherLocalDataSet_init (Path False [''data'', ''test.feather''])
       (Some [''columns'' \<mapsto> [''a'']]) None"

definition versioned_data_set :: "string list FeatherLocalDataSet" where
  "versioned_data_set =
     FeatherLocalDataSet_init (Path False [''data'', ''test.feather'']) None
       (Some (Version None None))"

definition pinned_data_set :: "string list FeatherLocalDataSet" where
  "pinned_data_set =
     FeatherLocalDataSet_init (Path False [''data'', ''test.feather'']) None
       (Some (Version (Some ''v1'') (Some ''v2'')))"

text \<open>Environments in which the permission to look at the data set is missing: the
  resolution of the load path, or the check for a regular file, raises
  \<^verbatim>\<open>PermissionError\<close>.\<close>

definition denied_env ::
  "(string list, (string \<times> int) list, string \<times> (string \<rightharpoonup> string list config),
    (string \<times> int) list world) env" where
  "denied_env =
     (core_env frame_codec)\<lparr> get_load_path := (\<lambda>s. (Inl (OtherError ''PermissionError''), s)) \<rparr>"

definition unreadable_env ::
  "(string list, (string \<times> int) list, string \<times> (string \<rightharpoonup> string list config),
    (string \<times> int) list world) env" where
  "unreadable_env =
     (core_env frame_codec)\<lparr> is_file := (\<lambda>p s. (Inl (OtherError ''PermissionError''), s)) \<rparr>"

text \<open>The versions of a data set that hold its file.\<close>

definition saved_versions :: "'b world \<Rightarrow> path \<Rightarrow> string list" where
  "saved_versions w fp = filter (\<lambda>v. fs_is_file w (get_versioned_path fp v)) (version_dirs w fp)"

text \<open>The file system after three versions of \<open>versioned_data_set\<close> were saved, on three
  days.\<close>

definition one_version_world :: "(string \<times> int) list world" where
  "one_version_world =
     \<lparr> cwd = [''home''],
       fs = [([''home'', ''data'', ''test.feather'', ''2019-01-01'', ''test.feather''], File [(''a'', 1)]),
             ([''home'', ''data'', ''test.feather'', ''2019-01-01''], Dir),
             ([''home'', ''data'', ''test.feather''], Dir),
             ([''home'', ''data''], Dir),
             ([''home''], Dir)],
       now = ''2019-01-02'' \<rparr>"

definition two_versions_world :: "(string \<times> int) list world" where
  "two_versions_world =
     \<lparr> cwd = [''home''],
       fs = [([''home'', ''data'', ''test.feather'', ''2019-01-02'', ''test.feather''], File [(''a'', 2)]),
             ([''home'', ''data'', ''test.feather'', ''2019-01-02''], Dir),
             ([''home'', ''data'', ''test.feather'', ''2019-01-01'', ''test.feather''], File [(''a'', 1)]),
             ([''home'', ''data'', ''test.feather'', ''2019-01-01''], Dir),
             ([''home'', ''data'', ''test.feather''], Dir),
             ([''home'', ''data''], Dir),
             ([''home''], Dir)],
       now = ''2019-01-03'' \<rparr>"

definition three_versions_world :: "(string \<times> int) list world" where
  "three_versions_world =
     \<lparr> cwd = [''home''],
       fs = [([''home'', ''data'', ''test.feather'', ''2019-01-03'', ''test.feather''], File [(''a'', 3)]),
             ([''home'', ''data'', ''test.feather'', ''2019-01-03''], Dir),
             ([''home'', ''data'', ''test.feather'', ''2019-01-02'', ''test.feather''], File [(''a'', 2)]),
             ([''home'', ''data'', ''test.feather'', ''2019-01-02''], Dir),
             ([''home'', ''data'', ''test.feather'', ''2019-01-01'', ''test.feather''], File [(''a'', 1)]),
             ([''home'', ''data'', ''test.feather'', ''2019-01-01''], Dir),
             ([''home'', ''data'', ''test.feather''], Dir),
             ([''home'', ''data''], Dir),
             ([''home''], Dir)],
       now = ''2019-01-03'' \<rparr>"

text \<open>A save that returns, and the world it leaves.\<close>

definition saves_to ::
  "'v \<Rightarrow> ('v, 'o, 'b) codec \<Rightarrow> 'o FeatherLocalDataSet \<Rightarrow> 'b world \<Rightarrow> 'b world option" where
  "saves_to data C self w =
     (case FeatherLocalDataSet_save (core_env C) data (self, w) of
        (Inl e, s) \<Rightarrow> None
      | (Inr u, s) \<Rightarrow> Some (snd s))"

text \<open>A file system in which \<^verbatim>\<open>data\<close> is a regular file, so that nothing can be
  saved below it.\<close>

definition blocked_world :: "(string \<times> int) list world" where
  "blocked_world =
     \<lparr> cwd = [''home''],
       fs = [([''home'', ''data''], File [(''x'', 0)]), ([''home''], Dir)],
       now = ''2019-01-01'' \<rparr>"

text \<open>No path from the root down to \<open>k\<close>, \<open>k\<close> included, is a regular file.\<close>

definition no_file_on :: "(string list \<times> 'b node) list \<Rightarrow> string list \<Rightarrow> bool" where
  "no_file_on t k = (\<forall>j \<in> {0..length k}. \<forall>b. node_at t (take j k) \<noteq> Some (File b))"

text \<open>The file system \<open>t'\<close> is \<open>t\<close> with new directories, at paths no longer than \<open>k\<close>.\<close>

definition grows_on ::
  "string list \<Rightarrow> (string list \<times> 'b node) list \<Rightarrow> (string list \<times> 'b node) list \<Rightarrow> bool" where
  "grows_on k t t' =
     (\<forall>q. node_at t' q = node_at t q
          \<or> (node_at t q = None \<and> node_at t' q = Some Dir \<and> length q \<le> length k))"

text \<open>The path \<^verbatim>\<open>_save\<close> writes to: what the resolution of the save path gives.\<close>

definition save_target :: "'o FeatherLocalDataSet \<Rightarrow> 'b world \<Rightarrow> path" where
  "save_target self w =
     (case version self of
        None \<Rightarrow> filepath self
      | Some ver \<Rightarrow>
          get_versioned_path (filepath self) (case save ver of Some i \<Rightarrow> i | None \<Rightarrow> now w))"

text \<open>
  The version that a save writes is the version that a load would then ask for: the
  load identifier is the save identifier or, when it is unset, no version of the data set
  after the save identifier holds the file.
\<close>

definition version_consistent :: "'o FeatherLocalDataSet \<Rightarrow> 'b world \<Rightarrow> bool" where
  "version_consistent self w =
     (case version self of
        None \<Rightarrow> True
      | Some ver \<Rightarrow>
          (case load ver of
             Some i \<Rightarrow> i = (case save ver of Some j \<Rightarrow> j | None \<Rightarrow> now w)
           | None \<Rightarrow>
               (\<forall>v. fs_is_file w (get_versioned_path (filepath self) v) \<longrightarrow>
                    v \<le> (case save ver of Some j \<Rightarrow> j | None \<Rightarrow> now w))))"

section \<open>Evaluating the examples\<close>

lemma plain_data_set_fields:
  "filepath plain_data_set = Path False [''data'', ''test.feather'']"
  "version plain_data_set = None"
  "load_args plain_data_set = Map.empty"
  by (simp_all add: plain_data_set_def FeatherLocalDataSet_init_def default_load_args_def)

lemma versioned_data_set_fields:
  "filepath versioned_data_set = Path False [''data'', ''test.feather'']"
  "version versioned_data_set = Some (Version None None)"
  "load_args versioned_data_set = Map.empty"
  by (simp_all add: versioned_data_set_def FeatherLocalDataSet_init_def default_load_args_def)

lemma pinned_data_set_fields:
  "filepath pinned_data_set = Path False [''data'', ''test.feather'']"
  "version pinned_data_set = Some (Version (Some ''v1'') (Some ''v2''))"
  "load_args pinned_data_set = Map.empty"
  by (simp_all add: pinned_data_set_def FeatherLocalDataSet_init_def default_load_args_def)

lemma columns_data_set_fields:
  "filepath columns_data_set = Path False [''data'', ''test.feather'']"
  "version columns_data_set = None"
  "load_args columns_data_set = [''columns'' \<mapsto> [''a'']]"
  by (simp_all add: columns_data_set_def FeatherLocalDataSet_init_def default_load_args_def)

lemma core_env_fields:
  "get_load_path (core_env C) = core_get_load_path"
  "get_save_path (core_env C) = core_get_save_path"
  "check_paths_consistency (core_env C) = core_check_paths_consistency"
  "absolute (core_env C) = core_absolute"
  "mkdir (core_env C) = core_mkdir"
  "is_file (core_env C) = core_is_file"
  "read_feather (core_env C) = core_read_feather C"
  "to_feather (core_env C) = core_to_feather C"
  by (simp_all add: core_env_def)

lemma empty_world_latest_version: "latest_version empty_world fp = None"
  by (simp add: latest_version_def version_dirs_def children_def empty_world_def)

section \<open>Facts about the file system\<close>

lemma node_at_FileD: "node_at t k = Some (File b) \<Longrightarrow> (k, File b) \<in> set t"
  by (auto simp add: node_at_def split: if_splits dest: map_of_SomeD)

lemma abs_key_versioned:
  "abs_key w (get_versioned_path fp v)
     = abs_key w fp @ [v] @ (if parts fp = [] then [] else [last (parts fp)])"
  by (simp add: abs_key_def get_versioned_path_def)

lemma never_saved_not_file:
  assumes "never_saved w fp" and "take (length (abs_key w fp)) (abs_key w q) = abs_key w fp"
  shows "\<not> fs_is_file w q"
proof
  assume "fs_is_file w q"
  then obtain b where "node_at (fs w) (abs_key w q) = Some (File b)"
    by (auto simp add: fs_is_file_def split: option.splits node.splits)
  then have "(abs_key w q, File b) \<in> set (fs w)" by (rule node_at_FileD)
  with assms show False by (auto simp add: never_saved_def)
qed

lemma never_saved_latest_version: "never_saved w fp \<Longrightarrow> latest_version w fp = None"
  by (simp add: latest_version_def find_None_iff never_saved_not_file abs_key_versioned)

lemma never_saved_exists:
  assumes "never_saved (snd s) (filepath (fst s))"
  shows "FeatherLocalDataSet_exists (core_env C) s = (Inr False, s)"
proof (cases "version (fst s)")
  case None
  with assms show ?thesis
    by (simp add: FeatherLocalDataSet_exists_def core_env_fields core_get_load_path_def
        core_is_file_def never_saved_not_file)
next
  case (Some ver)
  show ?thesis
  proof (cases "load ver")
    case None
    with Some assms show ?thesis
      by (simp add: FeatherLocalDataSet_exists_def core_env_fields core_get_load_path_def
          never_saved_latest_version)
  next
    case (Some i)
    with \<open>version (fst s) = Some ver\<close> assms show ?thesis
      by (simp add: FeatherLocalDataSet_exists_def core_env_fields core_get_load_path_def
          core_is_file_def never_saved_not_file abs_key_versioned)
  qed
qed

section \<open>The instance is not modified\<close>

lemma keeps_self_bind:
  assumes "keeps_self m" and "\<And>a. keeps_self (f a)"
  shows "keeps_self (bind_exn m f)"
  unfolding keeps_self_def
proof
  fix s
  obtain r s' where g: "m s = (r, s')" by (cases "m s")
  from assms(1) have "fst (snd (m s)) = fst s" unfolding keeps_self_def by blast
  with g have s': "fst s' = fst s" by simp
  show "fst (snd (bind_exn m f s)) = fst s"
  proof (cases r)
    case (Inl e)
    with g s' show ?thesis by (simp add: bind_exn_def)
  next
    case (Inr a)
    from assms(2) [of a] have "fst (snd (f a s')) = fst s'" unfolding keeps_self_def by blast
    with Inr g s' show ?thesis by (simp add: bind_exn_def)
  qed
qed

lemma keeps_self_exists:
  assumes "keeps_self (get_load_path E)" and "\<And>p. keeps_self (is_file E p)"
  shows "keeps_self (FeatherLocalDataSet_exists E)"
  unfolding keeps_self_def
proof
  fix s
  obtain r s' where g: "get_load_path E s = (r, s')" by (cases "get_load_path E s")
  from assms(1) have "fst (snd (get_load_path E s)) = fst s" unfolding keeps_self_def by blast
  with g have s': "fst s' = fst s" by simp
  show "fst (snd (FeatherLocalDataSet_exists E s)) = fst s"
  proof (cases r)
    case (Inl e)
    with g s' show ?thesis by (simp add: FeatherLocalDataSet_exists_def)
  next
    case (Inr p)
    from assms(2) [of p] have "fst (snd (is_file E p s')) = fst s'"
      unfolding keeps_self_def by blast
    with Inr g s' show ?thesis by (simp add: FeatherLocalDataSet_exists_def)
  qed
qed

lemma core_env_keeps_self: "env_keeps_self (core_env C)"
  by (auto simp add: env_keeps_self_def keeps_self_def core_env_fields core_get_load_path_def
      core_get_save_path_def core_check_paths_consistency_def core_absolute_def core_mkdir_def
      core_is_file_def core_read_feather_def core_to_feather_def Let_def
      split: option.splits sum.splits)

section \<open>Properties of \<^verbatim>\<open>FeatherLocalDataSet\<close>\<close>

text \<open>
  C4. The effective load options of a data set built with user options \<open>u\<close> are the
  default options merged with \<open>u\<close>: a key of \<open>u\<close> has the value \<open>u\<close> gives it, any
  other key the default's; without user options they are the defaults. The values are
  not looked into, so the merge is shallow. \<^verbatim>\<open>_load\<close> calls the reader with the resolved
  path and the instance's effective options.
\<close>

theorem load_args_merged:
  "load_args (FeatherLocalDataSet_init fp (Some u) ver) = default_load_args ++ u
   \<and> (\<forall>k x. u k = Some x \<longrightarrow> load_args (FeatherLocalDataSet_init fp (Some u) ver) k = Some x)
   \<and> (\<forall>k. u k = None \<longrightarrow>
         load_args (FeatherLocalDataSet_init fp (Some u) ver) k = default_load_args k)
   \<and> load_args (FeatherLocalDataSet_init fp None ver) = default_load_args
   \<and> (\<forall>s p s'. get_load_path E s = (Inr p, s') \<longrightarrow>
         FeatherLocalDataSet_load E s = read_feather E p (load_args (fst s')) s')"
  by (simp add: FeatherLocalDataSet_init_def FeatherLocalDataSet_load_def bind_exn_def map_add_def)

theorem load_args_merged_witness:
  "load_args (FeatherLocalDataSet_init (Path False [''data'', ''test.feather''])
       (Some [''columns'' \<mapsto> [''a'']]) None) ''columns'' = Some [''a'']
   \<and> load_args (FeatherLocalDataSet_init (Path False [''data'', ''test.feather''])
       (Some [''columns'' \<mapsto> [''a'']]) None) ''nthreads'' = (default_load_args ''nthreads'')
   \<and> FeatherLocalDataSet_load (core_env frame_codec) (columns_data_set, saved_world)
       = (Inr [(''a'', 1)], (columns_data_set, saved_world))"
proof -
  let ?u = "[''columns'' \<mapsto> [''a'']] :: string \<rightharpoonup> string list"
  let ?s = "(columns_data_set, saved_world)"
  note m = load_args_merged [of "Path False [''data'', ''test.feather'']" ?u None "core_env frame_codec"]
  have a: "?u ''columns'' = Some [''a'']" by simp
  have b: "?u ''nthreads'' = None" by simp
  have c: "get_load_path (core_env frame_codec) ?s = (Inr (filepath columns_data_set), ?s)"
    by (simp add: core_env_fields core_get_load_path_def columns_data_set_fields)
  from m a have 1: "load_args (FeatherLocalDataSet_init (Path False [''data'', ''test.feather''])
       (Some ?u) None) ''columns'' = Some [''a'']" by blast
  from m b have 2: "load_args (FeatherLocalDataSet_init (Path False [''data'', ''test.feather''])
       (Some ?u) None) ''nthreads'' = default_load_args ''nthreads''" by blast
  from m c have "FeatherLocalDataSet_load (core_env frame_codec) ?s
      = read_feather (core_env frame_codec) (filepath columns_data_set)
          (load_args (fst ?s)) ?s" by blast
  also have "\<dots> = (Inr [(''a'', 1)], ?s)"
    by (simp add: core_env_fields core_read_feather_def columns_data_set_fields fs_read_def
        node_at_def abs_key_def saved_world_def frame_codec_def)
  finally have 3: "FeatherLocalDataSet_load (core_env frame_codec) ?s = (Inr [(''a'', 1)], ?s)" .
  from 1 2 3 show ?thesis by blast
qed

text \<open>
  C7. \<^verbatim>\<open>_describe\<close> returns the mapping of the three attributes and leaves the state as it
  is; its result is the same in any world, so it reads nothing of it; called twice in a
  row it returns two equal mappings. The mapping has the keys \<^verbatim>\<open>filepath\<close>,
  \<^verbatim>\<open>load_args\<close> and \<^verbatim>\<open>version\<close>, with the instance's attributes as values.
\<close>

theorem describe_static:
  "FeatherLocalDataSet_describe (self, w) = (Inr (describe_dict self), (self, w))
   \<and> fst (FeatherLocalDataSet_describe (self, w')) = fst (FeatherLocalDataSet_describe (self, w))
   \<and> bind_exn FeatherLocalDataSet_describe
        (\<lambda>d1. bind_exn FeatherLocalDataSet_describe (\<lambda>d2 s'. (Inr (d1 = d2), s'))) (self, w)
       = (Inr True, (self, w))
   \<and> dom (describe_dict self) = {''filepath'', ''load_args'', ''version''}
   \<and> describe_dict self ''filepath'' = Some (CPath (filepath self))
   \<and> describe_dict self ''load_args'' = Some (CArgs (load_args self))
   \<and> describe_dict self ''version'' = Some (CVersion (version self))"
  by (auto simp add: FeatherLocalDataSet_describe_def bind_exn_def describe_dict_def)

text \<open>
  C10. In \<^verbatim>\<open>_exists\<close>, an exception of the resolution of the load path that is a
  \<^verbatim>\<open>DataSetError\<close> gives the result \<open>False\<close>; an exception of any other class is raised
  to the caller as it is; and so is an exception of the check for a regular file.
\<close>

theorem exists_downgrades_only_DataSetError:
  "(get_load_path E s = (Inl e, s') \<longrightarrow> isinstance_DataSetError e \<longrightarrow>
      FeatherLocalDataSet_exists E s = (Inr False, s'))
   \<and> (get_load_path E s = (Inl e, s') \<longrightarrow> \<not> isinstance_DataSetError e \<longrightarrow>
      FeatherLocalDataSet_exists E s = (Inl e, s'))
   \<and> (get_load_path E s = (Inr p, s') \<longrightarrow> is_file E p s' = (Inl e', s'') \<longrightarrow>
      FeatherLocalDataSet_exists E s = (Inl e', s''))"
  by (simp add: FeatherLocalDataSet_exists_def)

theorem exists_downgrades_only_DataSetError_witness:
  "FeatherLocalDataSet_exists (core_env frame_codec) (versioned_data_set, empty_world)
     = (Inr False, (versioned_data_set, empty_world))
   \<and> FeatherLocalDataSet_exists denied_env (plain_data_set, empty_world)
     = (Inl (OtherError ''PermissionError''), (plain_data_set, empty_world))
   \<and> FeatherLocalDataSet_exists unreadable_env (plain_data_set, empty_world)
     = (Inl (OtherError ''PermissionError''), (plain_data_set, empty_world))"
proof -
  let ?s = "(versioned_data_set, empty_world)"
  let ?t = "(plain_data_set, empty_world)"
  have a: "get_load_path (core_env frame_codec) ?s
             = (Inl (VersionNotFoundError (describe_payload versioned_data_set)), ?s)"
    by (simp add: core_env_fields core_get_load_path_def versioned_data_set_fields
        empty_world_latest_version)
  have b: "get_load_path denied_env ?t = (Inl (OtherError ''PermissionError''), ?t)"
    by (simp add: denied_env_def)
  have c: "get_load_path unreadable_env ?t = (Inr (filepath plain_data_set), ?t)"
    by (simp add: unreadable_env_def core_env_fields core_get_load_path_def
        plain_data_set_fields)
  have d: "is_file unreadable_env (filepath plain_data_set) ?t
             = (Inl (OtherError ''PermissionError''), ?t)"
    by (simp add: unreadable_env_def)
  from exists_downgrades_only_DataSetError
         [of "core_env frame_codec" ?s "VersionNotFoundError (describe_payload versioned_data_set)" ?s]
       a
  have 1: "FeatherLocalDataSet_exists (core_env frame_codec) ?s = (Inr False, ?s)" by simp
  from exists_downgrades_only_DataSetError [of denied_env ?t "OtherError ''PermissionError''" ?t] b
  have 2: "FeatherLocalDataSet_exists denied_env ?t = (Inl (OtherError ''PermissionError''), ?t)"
    by simp
  from exists_downgrades_only_DataSetError
         [of unreadable_env ?t _ ?t "filepath plain_data_set" "OtherError ''PermissionError''" ?t] c d
  have 3: "FeatherLocalDataSet_exists unreadable_env ?t = (Inl (OtherError ''PermissionError''), ?t)"
    by simp
  from 1 2 3 show ?thesis by simp
qed

text \<open>
  C2. \<^verbatim>\<open>_exists\<close> returns \<open>False\<close> and raises nothing when the resolution of the load
  path fails with \<^verbatim>\<open>VersionNotFoundError\<close>; when the resolution gives a path, it returns
  what the check for a regular file at that path returns. On the file system, for a data
  set for which nothing was ever saved, it returns \<open>False\<close> and changes nothing.
\<close>

theorem exists_false_on_absence:
  "(get_load_path E s = (Inl (VersionNotFoundError d), s') \<longrightarrow>
      FeatherLocalDataSet_exists E s = (Inr False, s'))
   \<and> (get_load_path E s = (Inr p, s') \<longrightarrow> is_file E p s' = (Inr b, s'') \<longrightarrow>
      FeatherLocalDataSet_exists E s = (Inr b, s''))
   \<and> (never_saved (snd t) (filepath (fst t)) \<longrightarrow>
      FeatherLocalDataSet_exists (core_env C) t = (Inr False, t))"
proof (intro conjI impI)
  assume "get_load_path E s = (Inl (VersionNotFoundError d), s')"
  then show "FeatherLocalDataSet_exists E s = (Inr False, s')"
    by (simp add: FeatherLocalDataSet_exists_def)
next
  assume "get_load_path E s = (Inr p, s')" and "is_file E p s' = (Inr b, s'')"
  then show "FeatherLocalDataSet_exists E s = (Inr b, s'')"
    by (simp add: FeatherLocalDataSet_exists_def)
next
  assume "never_saved (snd t) (filepath (fst t))"
  then show "FeatherLocalDataSet_exists (core_env C) t = (Inr False, t)"
    by (rule never_saved_exists)
qed

theorem exists_false_on_absence_witness:
  "FeatherLocalDataSet_exists (core_env frame_codec) (versioned_data_set, empty_world)
     = (Inr False, (versioned_data_set, empty_world))
   \<and> FeatherLocalDataSet_exists (core_env frame_codec) (plain_data_set, saved_world)
     = (Inr True, (plain_data_set, saved_world))
   \<and> FeatherLocalDataSet_exists (core_env frame_codec) (plain_data_set, empty_world)
     = (Inr False, (plain_data_set, empty_world))"
proof -
  let ?E = "core_env frame_codec"
  let ?s = "(versioned_data_set, empty_world)"
  let ?t = "(plain_data_set, saved_world)"
  let ?u = "(plain_data_set, empty_world)"
  have a: "get_load_path ?E ?s
             = (Inl (VersionNotFoundError (describe_payload versioned_data_set)), ?s)"
    by (simp add: core_env_fields core_get_load_path_def versioned_data_set_fields
        empty_world_latest_version)
  have b: "get_load_path ?E ?t = (Inr (filepath plain_data_set), ?t)"
    by (simp add: core_env_fields core_get_load_path_def plain_data_set_fields)
  have c: "is_file ?E (filepath plain_data_set) ?t = (Inr True, ?t)"
    by (simp add: core_env_fields core_is_file_def fs_is_file_def node_at_def abs_key_def
        plain_data_set_fields saved_world_def)
  have d: "never_saved (snd ?u) (filepath (fst ?u))"
    by (simp add: never_saved_def empty_world_def)
  from exists_false_on_absence
         [where E = ?E and s = ?s and d = "describe_payload versioned_data_set" and s' = ?s] a
  have 1: "FeatherLocalDataSet_exists ?E ?s = (Inr False, ?s)" by blast
  from exists_false_on_absence
         [where E = ?E and s = ?t and s' = ?t and p = "filepath plain_data_set" and b = True
            and s'' = ?t] b c
  have 2: "FeatherLocalDataSet_exists ?E ?t = (Inr True, ?t)" by blast
  have 3: "FeatherLocalDataSet_exists ?E ?u = (Inr False, ?u)"
    by (rule exists_false_on_absence [THEN conjunct2, THEN conjunct2, THEN mp, OF d])
  from 1 2 3 show ?thesis by blast
qed

text \<open>
  C9. If what the data set calls (the inherited helpers, \<^verbatim>\<open>pathlib\<close>, \<^verbatim>\<open>pandas\<close>) leaves
  the instance as it is, then so do \<^verbatim>\<open>_load\<close>, \<^verbatim>\<open>_save\<close>, \<^verbatim>\<open>_exists\<close> and
  \<^verbatim>\<open>_describe\<close>: after any of them the file path, the load options and the version are
  what they were. The instance has no other attribute, so a call hands nothing to the next
  one: each resolves its paths again, on the state it is called in.
\<close>

theorem methods_keep_configuration:
  assumes "env_keeps_self E"
  shows "keeps_self (FeatherLocalDataSet_load E)
         \<and> keeps_self (FeatherLocalDataSet_save E data)
         \<and> keeps_self (FeatherLocalDataSet_exists E)
         \<and> keeps_self FeatherLocalDataSet_describe"
proof -
  from assms have 1: "keeps_self (FeatherLocalDataSet_load E)"
    unfolding FeatherLocalDataSet_load_def env_keeps_self_def
    by (intro keeps_self_bind) (auto simp add: keeps_self_def)
  from assms have 2: "keeps_self (FeatherLocalDataSet_save E data)"
    unfolding FeatherLocalDataSet_save_def env_keeps_self_def
    by (intro keeps_self_bind) auto
  from assms have 3: "keeps_self (FeatherLocalDataSet_exists E)"
    unfolding env_keeps_self_def by (intro keeps_self_exists) auto
  have 4: "keeps_self FeatherLocalDataSet_describe"
    by (simp add: keeps_self_def FeatherLocalDataSet_describe_def)
  from 1 2 3 4 show ?thesis by simp
qed

theorem methods_keep_configuration_witness:
  "env_keeps_self (core_env frame_codec)
   \<and> fst (snd (FeatherLocalDataSet_save (core_env frame_codec) [(''a'', 1)]
        (versioned_data_set, empty_world))) = versioned_data_set
   \<and> fst (snd (FeatherLocalDataSet_load (core_env frame_codec)
        (columns_data_set, saved_world))) = columns_data_set
   \<and> fst (snd (FeatherLocalDataSet_exists (core_env frame_codec)
        (plain_data_set, saved_world))) = plain_data_set"
proof -
  have h: "env_keeps_self (core_env frame_codec)" by (rule core_env_keeps_self)
  from methods_keep_configuration [OF h, of "[(''a'', 1)]"] h show ?thesis
    unfolding keeps_self_def by (metis fst_conv)
qed

section \<open>Loading what was never saved\<close>

lemma not_file_read_fails: "\<not> fs_is_file w q \<Longrightarrow> \<exists>e. fs_read (abs_key w q) (fs w) = Inl e"
  by (auto simp add: fs_is_file_def fs_read_def split: option.splits node.splits)

lemma read_feather_fails:
  assumes "\<not> fs_is_file (snd s) q"
  shows "\<exists>n. core_read_feather C q args s = (Inl (OtherError n), s)"
proof -
  from assms obtain e where "fs_read (abs_key (snd s) q) (fs (snd s)) = Inl e"
    using not_file_read_fails by blast
  then show ?thesis by (simp add: core_read_feather_def)
qed

lemma never_saved_load:
  assumes "never_saved (snd s) (filepath (fst s))"
  shows "DataSet_load C s =
           (Inl (if version (fst s) = None \<or> (\<exists>i l. version (fst s) = Some (Version (Some i) l))
                 then DataSetError (describe_payload (fst s))
                 else VersionNotFoundError (describe_payload (fst s))), s)"
proof (cases "version (fst s)")
  case None
  from assms have "\<not> fs_is_file (snd s) (filepath (fst s))"
    by (simp add: never_saved_not_file)
  then obtain n where
    "core_read_feather C (filepath (fst s)) (load_args (fst s)) s = (Inl (OtherError n), s)"
    using read_feather_fails by blast
  with None show ?thesis
    by (simp add: DataSet_load_def FeatherLocalDataSet_load_def bind_exn_def core_env_fields
        core_get_load_path_def)
next
  case (Some ver)
  obtain l sv where ver: "ver = Version l sv" by (cases ver)
  show ?thesis
  proof (cases l)
    case None
    with Some ver assms show ?thesis
      by (simp add: DataSet_load_def FeatherLocalDataSet_load_def bind_exn_def core_env_fields
          core_get_load_path_def never_saved_latest_version)
  next
    case (Some i)
    from assms have "\<not> fs_is_file (snd s) (get_versioned_path (filepath (fst s)) i)"
      by (simp add: never_saved_not_file abs_key_versioned)
    then obtain n where
      "core_read_feather C (get_versioned_path (filepath (fst s)) i) (load_args (fst s)) s
         = (Inl (OtherError n), s)"
      using read_feather_fails by blast
    with Some ver \<open>version (fst s) = Some ver\<close> show ?thesis
      by (simp add: DataSet_load_def FeatherLocalDataSet_load_def bind_exn_def core_env_fields
          core_get_load_path_def)
  qed
qed

text \<open>
  C6. For a data set for which nothing was ever saved, \<^verbatim>\<open>load()\<close> fails and changes
  nothing; the error is a \<^verbatim>\<open>DataSetError\<close> (the error of the reader wrapped, or
  \<^verbatim>\<open>VersionNotFoundError\<close> when the latest version was asked for), never an error of
  another class, and it carries the type of the data set and its \<^verbatim>\<open>describe()\<close> output.
\<close>

theorem load_never_saved_fails:
  assumes "never_saved (snd s) (filepath (fst s))"
  shows "\<exists>e. DataSet_load C s = (Inl e, s)
             \<and> isinstance_DataSetError e
             \<and> exn_payload e = Some (''FeatherLocalDataSet'', describe_dict (fst s))"
proof -
  let ?e = "if version (fst s) = None \<or> (\<exists>i l. version (fst s) = Some (Version (Some i) l))
            then DataSetError (describe_payload (fst s))
            else VersionNotFoundError (describe_payload (fst s))"
  from assms have "DataSet_load C s = (Inl ?e, s)" by (rule never_saved_load)
  moreover have "isinstance_DataSetError ?e" by simp
  moreover have "exn_payload ?e = Some (''FeatherLocalDataSet'', describe_dict (fst s))"
    by (simp add: describe_payload_def)
  ultimately show ?thesis by blast
qed

theorem load_never_saved_fails_witness:
  "never_saved empty_world (filepath plain_data_set)
   \<and> (\<exists>e. DataSet_load frame_codec (plain_data_set, empty_world)
              = (Inl e, (plain_data_set, empty_world))
          \<and> isinstance_DataSetError e
          \<and> exn_payload e = Some (''FeatherLocalDataSet'', describe_dict plain_data_set))"
proof -
  have h: "never_saved (snd (plain_data_set, empty_world)) (filepath (fst (plain_data_set, empty_world)))"
    by (simp add: never_saved_def empty_world_def)
  from load_never_saved_fails [OF h, of frame_codec] h show ?thesis by simp
qed

section \<open>The latest version\<close>

lemma find_filter: "find P xs = (case filter P xs of [] \<Rightarrow> None | x # ys \<Rightarrow> Some x)"
  by (induction xs) auto

lemma last_sorted_Max:
  fixes xs :: "'a::linorder list"
  assumes "sorted xs" and "xs \<noteq> []"
  shows "last xs = Max (set xs)"
  using assms
proof (induction xs)
  case Nil
  then show ?case by simp
next
  case (Cons x xs)
  show ?case
  proof (cases "xs = []")
    case True
    then show ?thesis by simp
  next
    case False
    with Cons have ih: "last xs = Max (set xs)" by simp
    from Cons.prems have "\<forall>y \<in> set xs. x \<le> y" by simp
    with False have "x \<le> Max (set xs)"
      by (metis List.finite_set Max_ge_iff last_in_set set_empty)
    with False ih show ?thesis by (simp add: max_def)
  qed
qed

lemma find_rev_sort:
  fixes xs :: "'a::linorder list"
  shows "find P (rev (sort xs)) =
           (if filter P xs = [] then None else Some (Max (set (filter P xs))))"
proof -
  let ?ys = "filter P xs"
  have f: "filter P (rev (sort xs)) = rev (sort ?ys)"
    by (simp add: rev_filter [symmetric] filter_sort)
  show ?thesis
  proof (cases "?ys = []")
    case True
    with f show ?thesis by (simp add: find_filter)
  next
    case False
    then have ne: "sort ?ys \<noteq> []" by (metis set_empty set_sort)
    have h: "(case rev (sort ?ys) of [] \<Rightarrow> None | x # zs \<Rightarrow> Some x) = Some (last (sort ?ys))"
      using ne by (cases "sort ?ys" rule: rev_cases) simp_all
    have m: "last (sort ?ys) = Max (set ?ys)"
      using ne last_sorted_Max [of "sort ?ys"] by simp
    have "find P (rev (sort xs)) = (case rev (sort ?ys) of [] \<Rightarrow> None | x # zs \<Rightarrow> Some x)"
      unfolding find_filter f ..
    with h m False show ?thesis by simp
  qed
qed

lemma latest_version_Max:
  "latest_version w fp =
     (if saved_versions w fp = [] then None else Some (Max (set (saved_versions w fp))))"
  unfolding latest_version_def saved_versions_def by (rule find_rev_sort)

lemma never_saved_versions: "never_saved w fp \<Longrightarrow> saved_versions w fp = []"
  using latest_version_Max [of w fp] never_saved_latest_version [of w fp]
  by (simp split: if_splits)

text \<open>
  C8. For a versioned data set with an unset load identifier, the resolution of the load
  path fails with \<^verbatim>\<open>VersionNotFoundError\<close> when no version holds the file, as when
  nothing was ever saved; otherwise it gives the path under the greatest version that
  holds the file, in the lexical order of the identifiers, and \<^verbatim>\<open>_load\<close> reads that
  file.
\<close>

theorem load_path_is_latest_version:
  assumes "version (fst s) = Some ver" and "load ver = None"
  shows "(saved_versions (snd s) (filepath (fst s)) = [] \<longrightarrow>
            core_get_load_path s = (Inl (VersionNotFoundError (describe_payload (fst s))), s))
         \<and> (never_saved (snd s) (filepath (fst s)) \<longrightarrow>
            core_get_load_path s = (Inl (VersionNotFoundError (describe_payload (fst s))), s))
         \<and> (saved_versions (snd s) (filepath (fst s)) \<noteq> [] \<longrightarrow>
            core_get_load_path s =
              (Inr (get_versioned_path (filepath (fst s))
                      (Max (set (saved_versions (snd s) (filepath (fst s)))))), s)
            \<and> FeatherLocalDataSet_load (core_env C) s =
                core_read_feather C
                  (get_versioned_path (filepath (fst s))
                     (Max (set (saved_versions (snd s) (filepath (fst s))))))
                  (load_args (fst s)) s)"
  using assms
  by (auto simp add: core_get_load_path_def latest_version_Max never_saved_versions
      FeatherLocalDataSet_load_def bind_exn_def core_env_fields)

lemma three_saves:
  "saves_to [(''a'', 1)] frame_codec versioned_data_set empty_world
     = Some (one_version_world\<lparr>now := ''2019-01-01''\<rparr>)"
  "saves_to [(''a'', 2)] frame_codec versioned_data_set one_version_world
     = Some (two_versions_world\<lparr>now := ''2019-01-02''\<rparr>)"
  "saves_to [(''a'', 3)] frame_codec versioned_data_set two_versions_world
     = Some three_versions_world"
  by code_simp+

lemma three_versions_saved:
  "saved_versions three_versions_world (Path False [''data'', ''test.feather''])
     = [''2019-01-03'', ''2019-01-02'', ''2019-01-01'']"
  by code_simp

lemma three_versions_Max: "Max (set [''2019-01-03'', ''2019-01-02'', ''2019-01-01'']) = ''2019-01-03''"
  by code_simp

theorem load_path_is_latest_version_witness:
  "saves_to [(''a'', 1)] frame_codec versioned_data_set empty_world
     = Some (one_version_world\<lparr>now := ''2019-01-01''\<rparr>)
   \<and> saves_to [(''a'', 2)] frame_codec versioned_data_set one_version_world
     = Some (two_versions_world\<lparr>now := ''2019-01-02''\<rparr>)
   \<and> saves_to [(''a'', 3)] frame_codec versioned_data_set two_versions_world
     = Some three_versions_world
   \<and> core_get_load_path (versioned_data_set, three_versions_world)
     = (Inr (Path False [''data'', ''test.feather'', ''2019-01-03'', ''test.feather'']),
        (versioned_data_set, three_versions_world))
   \<and> FeatherLocalDataSet_load (core_env frame_codec) (versioned_data_set, three_versions_world)
     = (Inr [(''a'', 3)], (versioned_data_set, three_versions_world))
   \<and> core_get_load_path (versioned_data_set, empty_world)
     = (Inl (VersionNotFoundError (describe_payload versioned_data_set)),
        (versioned_data_set, empty_world))"
proof -
  let ?s = "(versioned_data_set, three_versions_world)"
  let ?t = "(versioned_data_set, empty_world)"
  let ?p = "Path False [''data'', ''test.feather'', ''2019-01-03'', ''test.feather'']"
  have v: "version (fst ?s) = Some (Version None None)" "version (fst ?t) = Some (Version None None)"
    by (simp_all add: versioned_data_set_fields)
  have l: "load (Version None None) = None" by simp
  have ne: "saved_versions (snd ?s) (filepath (fst ?s)) \<noteq> []"
    by (simp add: versioned_data_set_fields three_versions_saved)
  have e: "never_saved (snd ?t) (filepath (fst ?t))"
    by (simp add: never_saved_def empty_world_def)
  have p: "get_versioned_path (filepath (fst ?s)) (Max (set (saved_versions (snd ?s) (filepath (fst ?s))))) = ?p"
    by (simp only: fst_conv snd_conv versioned_data_set_fields three_versions_saved three_versions_Max)
       (simp add: get_versioned_path_def)
  note a = load_path_is_latest_version [OF v(1) l, of frame_codec, THEN conjunct2, THEN conjunct2,
      THEN mp, OF ne, unfolded p]
  note b = load_path_is_latest_version [OF v(2) l, THEN conjunct2, THEN conjunct1, THEN mp, OF e]
  have r: "core_read_feather frame_codec ?p (load_args (fst ?s)) ?s = (Inr [(''a'', 3)], ?s)"
    by (simp add: core_read_feather_def versioned_data_set_fields fs_read_def node_at_def
        abs_key_def three_versions_world_def frame_codec_def)
  from a b r three_saves show ?thesis by simp
qed

section \<open>What a save that returns has done\<close>

lemma bind_exn_Inr:
  assumes "bind_exn m f s = (Inr x, s')"
  obtains a s'' where "m s = (Inr a, s'')" and "f a s'' = (Inr x, s')"
proof -
  obtain r s'' where m: "m s = (r, s'')" by (cases "m s")
  with assms obtain a where "r = Inr a" by (cases r) (simp_all add: bind_exn_def)
  with m assms that show thesis by (simp add: bind_exn_def)
qed

lemma abs_key_cwd: "cwd w' = cwd w \<Longrightarrow> abs_key w' p = abs_key w p"
  by (simp add: abs_key_def)

lemma core_get_load_path_state: "core_get_load_path s = (r, s') \<Longrightarrow> s' = s"
  by (auto simp add: core_get_load_path_def split: option.splits)

lemma core_check_Inr: "core_check_paths_consistency a b s = (Inr u, s') \<Longrightarrow> a = b \<and> s' = s"
  by (auto simp add: core_check_paths_consistency_def split: if_splits)

lemma fs_write_Inr: "fs_write k b t = Inr t' \<Longrightarrow> t' = (k, File b) # t \<and> k \<noteq> []"
  by (auto simp add: fs_write_def node_at_def split: option.splits node.splits if_splits)

lemma core_to_feather_Inr:
  assumes "core_to_feather C v p s = (Inr u, s')"
  shows "\<exists>b. encode C v = Inr b \<and> fst s' = fst s \<and> cwd (snd s') = cwd (snd s)
             \<and> fs (snd s') = (abs_key (snd s) p, File b) # fs (snd s)
             \<and> abs_key (snd s) p \<noteq> []"
proof -
  from assms obtain b where b: "encode C v = Inr b"
    by (cases "encode C v") (simp_all add: core_to_feather_def)
  with assms obtain t where t: "fs_write (abs_key (snd s) p) b (fs (snd s)) = Inr t"
    by (cases "fs_write (abs_key (snd s) p) b (fs (snd s))") (simp_all add: core_to_feather_def)
  with assms b have "s' = (fst s, (snd s)\<lparr>fs := t\<rparr>)" by (simp add: core_to_feather_def)
  with b fs_write_Inr [OF t] show ?thesis by simp
qed

lemma core_get_save_path_frame:
  "core_get_save_path s = (r, s') \<Longrightarrow> fst s' = fst s \<and> cwd (snd s') = cwd (snd s)"
  by (auto simp add: core_get_save_path_def Let_def split: option.splits sum.splits)

lemma core_mkdir_frame:
  "core_mkdir p x y s = (r, s') \<Longrightarrow> fst s' = fst s \<and> cwd (snd s') = cwd (snd s)"
  by (auto simp add: core_mkdir_def split: sum.splits)

lemma save_returned:
  assumes "FeatherLocalDataSet_save (core_env C) v s0 = (Inr u, s1)"
  shows "\<exists>lp sp b t. core_get_load_path s1 = (Inr lp, s1)
           \<and> abs_key (snd s1) lp = abs_key (snd s1) sp
           \<and> abs_key (snd s1) sp \<noteq> []
           \<and> encode C v = Inr b
           \<and> fs (snd s1) = (abs_key (snd s1) sp, File b) # t
           \<and> fst s1 = fst s0"
proof -
  from assms obtain sp sA where 1: "core_get_save_path s0 = (Inr sp, sA)"
    and r1: "bind_exn (core_mkdir (parent sp) True True) (\<lambda>_.
               bind_exn (core_to_feather C v sp) (\<lambda>_.
               bind_exn core_get_load_path (\<lambda>load_path.
               bind_exn (core_absolute load_path) (\<lambda>abs_load.
               bind_exn (core_absolute sp) (\<lambda>abs_save.
                 core_check_paths_consistency abs_load abs_save))))) sA = (Inr u, s1)"
    unfolding FeatherLocalDataSet_save_def core_env_fields by (rule bind_exn_Inr)
  from r1 obtain x sB where 2: "core_mkdir (parent sp) True True sA = (Inr x, sB)"
    and r2: "bind_exn (core_to_feather C v sp) (\<lambda>_.
               bind_exn core_get_load_path (\<lambda>load_path.
               bind_exn (core_absolute load_path) (\<lambda>abs_load.
               bind_exn (core_absolute sp) (\<lambda>abs_save.
                 core_check_paths_consistency abs_load abs_save)))) sB = (Inr u, s1)"
    by (rule bind_exn_Inr)
  from r2 obtain y sC where 3: "core_to_feather C v sp sB = (Inr y, sC)"
    and r3: "bind_exn core_get_load_path (\<lambda>load_path.
               bind_exn (core_absolute load_path) (\<lambda>abs_load.
               bind_exn (core_absolute sp) (\<lambda>abs_save.
                 core_check_paths_consistency abs_load abs_save))) sC = (Inr u, s1)"
    by (rule bind_exn_Inr)
  from r3 obtain lp sD where 4: "core_get_load_path sC = (Inr lp, sD)"
    and r4: "bind_exn (core_absolute lp) (\<lambda>abs_load.
               bind_exn (core_absolute sp) (\<lambda>abs_save.
                 core_check_paths_consistency abs_load abs_save)) sD = (Inr u, s1)"
    by (rule bind_exn_Inr)
  from 4 have sD: "sD = sC" by (rule core_get_load_path_state)
  from r4 sD have "core_check_paths_consistency (Path True (abs_key (snd sC) lp))
                     (Path True (abs_key (snd sC) sp)) sC = (Inr u, s1)"
    by (simp add: bind_exn_def core_absolute_def)
  then have eq: "abs_key (snd sC) lp = abs_key (snd sC) sp" and s1: "s1 = sC"
    using core_check_Inr by blast+
  from core_to_feather_Inr [OF 3] obtain b where b: "encode C v = Inr b"
    and f: "fst sC = fst sB" and c: "cwd (snd sC) = cwd (snd sB)"
    and t: "fs (snd sC) = (abs_key (snd sB) sp, File b) # fs (snd sB)"
    and ne: "abs_key (snd sB) sp \<noteq> []"
    by blast
  from c have k: "abs_key (snd sC) sp = abs_key (snd sB) sp" by (rule abs_key_cwd)
  from core_get_save_path_frame [OF 1] core_mkdir_frame [OF 2] f have "fst sC = fst s0" by simp
  with 4 sD s1 eq b t ne k have
    "core_get_load_path s1 = (Inr lp, s1)
       \<and> abs_key (snd s1) lp = abs_key (snd s1) sp
       \<and> abs_key (snd s1) sp \<noteq> []
       \<and> encode C v = Inr b
       \<and> fs (snd s1) = (abs_key (snd s1) sp, File b) # fs (snd sB)
       \<and> fst s1 = fst s0"
    by simp
  then show ?thesis by blast
qed

text \<open>
  C3. A value that the format supports under the data set's load options (the writer
  turns it into a content that the reader, with these options, turns back into the
  value) is returned by \<^verbatim>\<open>_load\<close> on the state that a \<^verbatim>\<open>_save\<close> of it has left, and
  the load changes nothing.
\<close>

theorem save_then_load_roundtrip:
  assumes "FeatherLocalDataSet_save (core_env C) v s0 = (Inr u, s1)"
      and "encode C v = Inr b"
      and "decode C b (load_args (fst s0)) = Inr v"
  shows "FeatherLocalDataSet_load (core_env C) s1 = (Inr v, s1)"
proof -
  from save_returned [OF assms(1)] assms(2) obtain lp sp t where
        lp: "core_get_load_path s1 = (Inr lp, s1)"
    and eq: "abs_key (snd s1) lp = abs_key (snd s1) sp"
    and ne: "abs_key (snd s1) sp \<noteq> []"
    and t: "fs (snd s1) = (abs_key (snd s1) sp, File b) # t"
    and self: "fst s1 = fst s0"
    by auto
  from eq ne t have "fs_read (abs_key (snd s1) lp) (fs (snd s1)) = Inr b"
    by (simp add: fs_read_def node_at_def)
  with assms(3) self have "core_read_feather C lp (load_args (fst s1)) s1 = (Inr v, s1)"
    by (simp add: core_read_feather_def)
  with lp show ?thesis
    by (simp add: FeatherLocalDataSet_load_def bind_exn_def core_env_fields)
qed

lemma plain_dirs:
  "mkdir_parents True [''home'', ''data'']
     ([] :: (string list \<times> (string \<times> int) list node) list)
   = Inr [([''home'', ''data''], Dir), ([''home''], Dir)]"
  by code_simp

lemma plain_save:
  "FeatherLocalDataSet_save (core_env frame_codec) [(''a'', 1), (''b'', 2)]
     (plain_data_set, empty_world)
   = (Inr (), (plain_data_set, saved_world))"
  by (simp add: FeatherLocalDataSet_save_def bind_exn_def core_env_fields
      core_get_save_path_def core_get_load_path_def core_mkdir_def core_to_feather_def
      core_absolute_def core_check_paths_consistency_def plain_data_set_fields parent_def
      abs_key_def path_mkdir_def plain_dirs fs_write_def node_at_def frame_codec_def
      empty_world_def saved_world_def)

theorem save_then_load_roundtrip_witness:
  "FeatherLocalDataSet_save (core_env frame_codec) [(''a'', 1), (''b'', 2)]
     (plain_data_set, empty_world)
   = (Inr (), (plain_data_set, saved_world))
   \<and> FeatherLocalDataSet_load (core_env frame_codec) (plain_data_set, saved_world)
   = (Inr [(''a'', 1), (''b'', 2)], (plain_data_set, saved_world))"
proof -
  have e: "encode frame_codec [(''a'', 1), (''b'', 2)] = Inr [(''a'', 1), (''b'', 2)]"
    by (simp add: frame_codec_def)
  have d: "decode frame_codec [(''a'', 1), (''b'', 2)] (load_args (fst (plain_data_set, empty_world)))
             = Inr [(''a'', 1), (''b'', 2)]"
    by (simp add: frame_codec_def plain_data_set_fields)
  from save_then_load_roundtrip [OF plain_save e d] plain_save show ?thesis by simp
qed

section \<open>Making the directories\<close>

lemma grows_on_refl: "grows_on k t t"
  by (simp add: grows_on_def)

lemma grows_on_trans:
  assumes "grows_on k t t1" and "grows_on k' t1 t2" and "length k \<le> length k'"
  shows "grows_on k' t t2"
  unfolding grows_on_def
proof
  fix q
  from assms(1) have a: "node_at t1 q = node_at t q
      \<or> (node_at t q = None \<and> node_at t1 q = Some Dir \<and> length q \<le> length k)"
    by (simp add: grows_on_def)
  from assms(2) have b: "node_at t2 q = node_at t1 q
      \<or> (node_at t1 q = None \<and> node_at t2 q = Some Dir \<and> length q \<le> length k')"
    by (simp add: grows_on_def)
  from a b assms(3)
  show "node_at t2 q = node_at t q
      \<or> (node_at t q = None \<and> node_at t2 q = Some Dir \<and> length q \<le> length k')"
    by auto
qed

lemma node_at_Cons:
  "node_at ((k, n) # t) q = (if q = [] then Some Dir else if q = k then Some n else node_at t q)"
  by (auto simp add: node_at_def)

lemma grows_on_new_dir: "node_at t k = None \<Longrightarrow> grows_on k t ((k, Dir) # t)"
  by (auto simp add: grows_on_def node_at_Cons) (simp add: node_at_def)

lemma no_file_on_butlast: "no_file_on t k \<Longrightarrow> no_file_on t (butlast k)"
proof (cases "k = []")
  case True
  assume "no_file_on t k"
  with True show ?thesis by simp
next
  case False
  assume a: "no_file_on t k"
  show ?thesis
    unfolding no_file_on_def
  proof (intro ballI allI)
    fix j b
    assume "j \<in> {0..length (butlast k)}"
    then have j: "j \<le> length k - 1" by simp
    then have "take j (butlast k) = take j k"
      by (simp add: butlast_conv_take)
    moreover from j have "j \<in> {0..length k}" by simp
    ultimately show "node_at t (take j (butlast k)) \<noteq> Some (File b)"
      using a by (simp add: no_file_on_def)
  qed
qed

lemma no_file_on_self: "no_file_on t k \<Longrightarrow> node_at t k \<noteq> Some (File b)"
  by (auto simp add: no_file_on_def dest: bspec [of _ _ "length k"])

lemma mkdir_parents_creates:
  assumes "no_file_on t k"
  shows "\<exists>t'. mkdir_parents True k t = Inr t' \<and> node_at t' k = Some Dir \<and> grows_on k t t'"
  using assms
proof (induction k rule: rev_induct)
  case Nil
  have "mkdir_parents True [] t = Inr t"
    by (subst mkdir_parents.simps) (simp add: os_mkdir_def node_at_def)
  then show ?case by (simp add: grows_on_refl node_at_def)
next
  case (snoc x ks)
  let ?k = "ks @ [x]"
  have ne: "?k \<noteq> []" by simp
  from snoc.prems have nf: "\<And>b. node_at t ?k \<noteq> Some (File b)" by (rule no_file_on_self)
  from snoc.prems have "no_file_on t (butlast ?k)" by (rule no_file_on_butlast)
  then have nfp: "no_file_on t ks" by simp
  then have nfk: "\<And>b. node_at t ks \<noteq> Some (File b)" by (rule no_file_on_self)
  show ?case
  proof (cases "node_at t ?k")
    case (Some n)
    with nf have d: "node_at t ?k = Some Dir" by (cases n) auto
    then have "mkdir_parents True ?k t = Inr t"
      by (subst mkdir_parents.simps) (simp add: os_mkdir_def)
    with d show ?thesis by (simp add: grows_on_refl)
  next
    case None
    show ?thesis
    proof (cases "node_at t ks")
      case (Some n)
      with nfk have d: "node_at t ks = Some Dir" by (cases n) auto
      with None have "mkdir_parents True ?k t = Inr ((?k, Dir) # t)"
        by (subst mkdir_parents.simps) (simp add: os_mkdir_def)
      with None show ?thesis by (simp add: node_at_Cons grows_on_new_dir)
    next
      case n: None
      from snoc.IH [OF nfp] obtain t1 where
        1: "mkdir_parents True ks t = Inr t1" and 2: "node_at t1 ks = Some Dir"
        and 3: "grows_on ks t t1"
        by blast
      from 3 have "node_at t1 ?k = node_at t ?k
          \<or> (node_at t ?k = None \<and> node_at t1 ?k = Some Dir \<and> length ?k \<le> length ks)"
        unfolding grows_on_def by blast
      with None have 4: "node_at t1 ?k = None" by simp
      from 2 4 have 5: "mkdir_leaf True ?k t1 = Inr ((?k, Dir) # t1)"
        by (simp add: mkdir_leaf_def os_mkdir_def)
      from None n 1 5 have "mkdir_parents True ?k t = Inr ((?k, Dir) # t1)"
        by (subst mkdir_parents.simps) (simp add: os_mkdir_def)
      moreover have "grows_on ?k t ((?k, Dir) # t1)"
        using 3 grows_on_new_dir [OF 4] by (rule grows_on_trans) simp
      ultimately show ?thesis by (simp add: node_at_Cons)
    qed
  qed
qed

lemma mkdir_parents_again:
  "node_at t k = Some Dir \<Longrightarrow> mkdir_parents True k t = Inr t"
  by (subst mkdir_parents.simps) (simp add: os_mkdir_def)

section \<open>Saving where the directories are missing\<close>

lemma parent_key: "parts p \<noteq> [] \<Longrightarrow> abs_key w (parent p) = butlast (abs_key w p)"
  by (simp add: abs_key_def parent_def butlast_append)

lemma abs_key_fs [simp]: "abs_key (w\<lparr>fs := t\<rparr>) p = abs_key w p"
  by (simp add: abs_key_def)

lemma target_parts: "parts (filepath self) \<noteq> [] \<Longrightarrow> parts (save_target self w) \<noteq> []"
  by (simp add: save_target_def get_versioned_path_def split: option.splits)

lemma grows_on_file:
  assumes "grows_on k t t'" and "node_at t' q = Some (File b)"
  shows "node_at t q = Some (File b)"
proof -
  from assms(1) have "node_at t' q = node_at t q
      \<or> (node_at t q = None \<and> node_at t' q = Some Dir \<and> length q \<le> length k)"
    unfolding grows_on_def by blast
  with assms(2) show ?thesis by auto
qed

lemma grows_on_longer:
  assumes "grows_on k t t'" and "length k < length q"
  shows "node_at t' q = node_at t q"
proof -
  from assms(1) have "node_at t' q = node_at t q
      \<or> (node_at t q = None \<and> node_at t' q = Some Dir \<and> length q \<le> length k)"
    unfolding grows_on_def by blast
  with assms(2) show ?thesis by auto
qed

lemma grows_on_no_file:
  assumes "grows_on k t t'" and "no_file_on t q"
  shows "no_file_on t' q"
  unfolding no_file_on_def
proof (intro ballI allI notI)
  fix j b
  assume j: "j \<in> {0..length q}" and "node_at t' (take j q) = Some (File b)"
  with assms(1) have "node_at t (take j q) = Some (File b)" by (simp add: grows_on_file)
  with assms(2) j show False by (simp add: no_file_on_def)
qed

lemma get_save_path_creates:
  assumes "no_file_on (fs w) (butlast (abs_key w (save_target self w)))"
      and "parts (filepath self) \<noteq> []"
  shows "\<exists>t1. core_get_save_path (self, w) = (Inr (save_target self w), (self, w\<lparr>fs := t1\<rparr>))
              \<and> grows_on (butlast (abs_key w (save_target self w))) (fs w) t1"
proof (cases "version self")
  case None
  then have "core_get_save_path (self, w) = (Inr (save_target self w), (self, w\<lparr>fs := fs w\<rparr>))"
    by (simp add: core_get_save_path_def save_target_def)
  then show ?thesis using grows_on_refl by blast
next
  case (Some ver)
  let ?p = "save_target self w"
  from assms(2) have "parts ?p \<noteq> []" by (rule target_parts)
  then have pk: "abs_key w (parent ?p) = butlast (abs_key w ?p)" by (rule parent_key)
  from mkdir_parents_creates [OF assms(1)] obtain t1 where
    1: "mkdir_parents True (butlast (abs_key w ?p)) (fs w) = Inr t1"
    and 2: "grows_on (butlast (abs_key w ?p)) (fs w) t1"
    by blast
  from Some have "?p = get_versioned_path (filepath self)
                         (case save ver of Some i \<Rightarrow> i | None \<Rightarrow> now w)"
    by (simp add: save_target_def)
  with Some pk 1 have "core_get_save_path (self, w) = (Inr ?p, (self, w\<lparr>fs := t1\<rparr>))"
    by (simp add: core_get_save_path_def Let_def path_mkdir_def cong: option.case_cong)
  with 2 show ?thesis by blast
qed

lemma write_completes:
  assumes nf: "no_file_on (fs w) (butlast (abs_key w (save_target self w)))"
      and nd: "node_at (fs w) (abs_key w (save_target self w)) \<noteq> Some Dir"
      and ne: "parts (filepath self) \<noteq> []"
      and en: "encode C v = Inr b"
  shows "\<exists>t2. bind_exn core_get_save_path (\<lambda>save_path.
               bind_exn (core_mkdir (parent save_path) True True) (\<lambda>_.
               bind_exn (core_to_feather C v save_path) (\<lambda>_. K))) (self, w)
              = K (self, w\<lparr>fs := (abs_key w (save_target self w), File b) # t2\<rparr>)
            \<and> node_at t2 (butlast (abs_key w (save_target self w))) = Some Dir
            \<and> grows_on (butlast (abs_key w (save_target self w))) (fs w) t2"
proof -
  let ?p = "save_target self w"
  let ?k = "abs_key w ?p"
  from ne have pp: "parts ?p \<noteq> []" by (rule target_parts)
  then have pk: "abs_key w (parent ?p) = butlast ?k" by (rule parent_key)
  from pp have kne: "?k \<noteq> []" by (simp add: abs_key_def)
  from get_save_path_creates [OF nf ne] obtain t1 where
    1: "core_get_save_path (self, w) = (Inr ?p, (self, w\<lparr>fs := t1\<rparr>))"
    and g1: "grows_on (butlast ?k) (fs w) t1"
    by blast
  from g1 nf have "no_file_on t1 (butlast ?k)" by (rule grows_on_no_file)
  from mkdir_parents_creates [OF this] obtain t2 where
    m: "mkdir_parents True (butlast ?k) t1 = Inr t2"
    and d: "node_at t2 (butlast ?k) = Some Dir"
    and g2: "grows_on (butlast ?k) t1 t2"
    by blast
  from m pk have 2: "core_mkdir (parent ?p) True True (self, w\<lparr>fs := t1\<rparr>)
                       = (Inr (), (self, w\<lparr>fs := t2\<rparr>))"
    by (simp add: core_mkdir_def path_mkdir_def)
  from g1 g2 have g: "grows_on (butlast ?k) (fs w) t2" by (rule grows_on_trans) simp
  from kne have "length (butlast ?k) < length ?k" by simp
  with g have "node_at t2 ?k = node_at (fs w) ?k" by (rule grows_on_longer)
  with nd have "node_at t2 ?k \<noteq> Some Dir" by simp
  with d have "fs_write ?k b t2 = Inr ((?k, File b) # t2)"
    by (auto simp add: fs_write_def split: option.splits node.splits)
  with en have 3: "core_to_feather C v ?p (self, w\<lparr>fs := t2\<rparr>)
                     = (Inr (), (self, w\<lparr>fs := (?k, File b) # t2\<rparr>))"
    by (simp add: core_to_feather_def)
  from 1 2 3 have "bind_exn core_get_save_path (\<lambda>save_path.
               bind_exn (core_mkdir (parent save_path) True True) (\<lambda>_.
               bind_exn (core_to_feather C v save_path) (\<lambda>_. K))) (self, w)
              = K (self, w\<lparr>fs := (?k, File b) # t2\<rparr>)"
    by (simp add: bind_exn_def)
  with d g show ?thesis by blast
qed

lemma children_mem: "(d @ [x], n) \<in> set t \<Longrightarrow> x \<in> set (children t d)"
  by (force simp add: children_def)

lemma node_at_DirD: "node_at t (d @ [x]) = Some n \<Longrightarrow> (d @ [x], n) \<in> set t"
  by (auto simp add: node_at_def dest: map_of_SomeD)

lemma latest_after_write:
  assumes ne: "parts fp \<noteq> []"
      and d: "node_at t2 (abs_key w fp @ [sid]) = Some Dir"
      and old: "\<And>v c. node_at t2 (abs_key w fp @ [v, last (parts fp)]) = Some (File c) \<Longrightarrow> v \<le> sid"
  shows "latest_version (w\<lparr>fs := (abs_key w fp @ [sid, last (parts fp)], File b) # t2\<rparr>) fp
           = Some sid"
proof -
  let ?a = "abs_key w fp"
  let ?nm = "last (parts fp)"
  let ?t3 = "(?a @ [sid, ?nm], File b) # t2"
  let ?w3 = "w\<lparr>fs := ?t3\<rparr>"
  have key: "\<And>v. abs_key w (get_versioned_path fp v) = ?a @ [v, ?nm]"
    using ne by (simp add: abs_key_versioned)
  have isf: "\<And>v. fs_is_file ?w3 (get_versioned_path fp v)
               = (v = sid \<or> (\<exists>c. node_at t2 (?a @ [v, ?nm]) = Some (File c)))"
    by (auto simp add: fs_is_file_def key node_at_Cons split: option.splits node.splits)
  from d have "(?a @ [sid], Dir) \<in> set t2" by (rule node_at_DirD)
  then have "(?a @ [sid], Dir) \<in> set ?t3" by simp
  then have "sid \<in> set (children ?t3 ?a)" by (rule children_mem)
  moreover from d have "node_at ?t3 (?a @ [sid]) = Some Dir" by (simp add: node_at_Cons)
  ultimately have "sid \<in> set (version_dirs ?w3 fp)" by (simp add: version_dirs_def)
  then have mem: "sid \<in> set (saved_versions ?w3 fp)" by (simp add: saved_versions_def isf)
  have le: "\<And>v. v \<in> set (saved_versions ?w3 fp) \<Longrightarrow> v \<le> sid"
    using old by (auto simp add: saved_versions_def isf)
  from mem le have "Max (set (saved_versions ?w3 fp)) = sid"
    by (intro Max_eqI) auto
  with mem show ?thesis by (auto simp add: latest_version_Max)
qed

lemma load_path_after_write:
  assumes vc: "version_consistent self w"
      and ne: "parts (filepath self) \<noteq> []"
      and d: "node_at t2 (butlast (abs_key w (save_target self w))) = Some Dir"
      and g: "grows_on k (fs w) t2"
  shows "core_get_load_path (self, w\<lparr>fs := (abs_key w (save_target self w), File b) # t2\<rparr>)
           = (Inr (save_target self w),
              (self, w\<lparr>fs := (abs_key w (save_target self w), File b) # t2\<rparr>))"
proof (cases "version self")
  case None
  then show ?thesis by (simp add: core_get_load_path_def save_target_def)
next
  case (Some ver)
  let ?fp = "filepath self"
  let ?sid = "case save ver of Some j \<Rightarrow> j | None \<Rightarrow> now w"
  from Some have tgt: "save_target self w = get_versioned_path ?fp ?sid"
    by (simp add: save_target_def)
  show ?thesis
  proof (cases "load ver")
    case (Some i)
    with vc \<open>version self = Some ver\<close> have "i = ?sid" by (simp add: version_consistent_def)
    with Some \<open>version self = Some ver\<close> tgt show ?thesis
      by (simp add: core_get_load_path_def)
  next
    case None
    from ne tgt have k: "abs_key w (save_target self w) = abs_key w ?fp @ [?sid, last (parts ?fp)]"
      by (simp add: abs_key_versioned)
    with d have d': "node_at t2 (abs_key w ?fp @ [?sid]) = Some Dir" by (simp add: butlast_append)
    have old: "\<And>v c. node_at t2 (abs_key w ?fp @ [v, last (parts ?fp)]) = Some (File c)
                  \<Longrightarrow> v \<le> ?sid"
    proof -
      fix v c
      assume "node_at t2 (abs_key w ?fp @ [v, last (parts ?fp)]) = Some (File c)"
      with g have "node_at (fs w) (abs_key w ?fp @ [v, last (parts ?fp)]) = Some (File c)"
        by (rule grows_on_file)
      with ne have "fs_is_file w (get_versioned_path ?fp v)"
        by (simp add: fs_is_file_def abs_key_versioned)
      with vc None \<open>version self = Some ver\<close> show "v \<le> ?sid"
        by (simp add: version_consistent_def)
    qed
    from latest_after_write [OF ne d' old]
    have "latest_version (w\<lparr>fs := (abs_key w (save_target self w), File b) # t2\<rparr>) ?fp = Some ?sid"
      by (simp add: k)
    with None \<open>version self = Some ver\<close> tgt show ?thesis
      by (simp add: core_get_load_path_def)
  qed
qed

lemma save_succeeds:
  assumes nf: "no_file_on (fs w) (butlast (abs_key w (save_target self w)))"
      and nd: "node_at (fs w) (abs_key w (save_target self w)) \<noteq> Some Dir"
      and ne: "parts (filepath self) \<noteq> []"
      and en: "encode C v = Inr b"
      and vc: "version_consistent self w"
  shows "\<exists>t. FeatherLocalDataSet_save (core_env C) v (self, w)
               = (Inr (), (self, w\<lparr>fs := (abs_key w (save_target self w), File b) # t\<rparr>))
            \<and> node_at t (butlast (abs_key w (save_target self w))) = Some Dir
            \<and> grows_on (butlast (abs_key w (save_target self w))) (fs w) t"
proof -
  let ?p = "save_target self w"
  let ?K = "bind_exn core_get_load_path (\<lambda>load_path.
              bind_exn (core_absolute load_path) (\<lambda>abs_load.
              bind_exn (core_absolute ?p) (\<lambda>abs_save.
                core_check_paths_consistency abs_load abs_save)))"
  from write_completes [OF nf nd ne en, of ?K] obtain t where
    w: "bind_exn core_get_save_path (\<lambda>save_path.
          bind_exn (core_mkdir (parent save_path) True True) (\<lambda>_.
          bind_exn (core_to_feather C v save_path) (\<lambda>_. ?K))) (self, w)
        = ?K (self, w\<lparr>fs := (abs_key w ?p, File b) # t\<rparr>)"
    and d: "node_at t (butlast (abs_key w ?p)) = Some Dir"
    and g: "grows_on (butlast (abs_key w ?p)) (fs w) t"
    by blast
  from get_save_path_creates [OF nf ne] obtain t1 where
    1: "core_get_save_path (self, w) = (Inr ?p, (self, w\<lparr>fs := t1\<rparr>))"
    by blast
  have "FeatherLocalDataSet_save (core_env C) v (self, w)
          = bind_exn core_get_save_path (\<lambda>save_path.
              bind_exn (core_mkdir (parent save_path) True True) (\<lambda>_.
              bind_exn (core_to_feather C v save_path) (\<lambda>_. ?K))) (self, w)"
    using 1 by (simp add: FeatherLocalDataSet_save_def core_env_fields bind_exn_def)
  also note w
  also have "?K (self, w\<lparr>fs := (abs_key w ?p, File b) # t\<rparr>)
               = (Inr (), (self, w\<lparr>fs := (abs_key w ?p, File b) # t\<rparr>))"
    using load_path_after_write [OF vc ne d g, of b]
    by (simp add: bind_exn_def core_absolute_def core_check_paths_consistency_def)
  finally show ?thesis using d g by blast
qed

text \<open>
  C5. \<^verbatim>\<open>_save\<close> resolves the save path, then makes the parent directory of that path
  with \<^verbatim>\<open>parents\<close> and \<^verbatim>\<open>exist_ok\<close> set, and only then calls the writer, on the state
  the making of the directories left: when the directories cannot be made the call fails
  with that error, and an error of the writer is the error of the call. On the file
  system, when no path above the target is a regular file and the target is no
  directory, the save of a value the format accepts returns: afterwards the parent
  directory exists, the target holds the content, and nothing else has changed but for
  new directories. (The version written must be the one a load then asks for, or the
  consistency check fails the call.)
\<close>

theorem save_makes_parent_directories:
  "(get_save_path E s0 = (Inr sp, s1) \<longrightarrow> mkdir E (parent sp) True True s1 = (Inl e, s2) \<longrightarrow>
      FeatherLocalDataSet_save E data s0 = (Inl e, s2))
   \<and> (get_save_path E s0 = (Inr sp, s1) \<longrightarrow> mkdir E (parent sp) True True s1 = (Inr u, s2) \<longrightarrow>
      to_feather E data sp s2 = (Inl e, s3) \<longrightarrow>
      FeatherLocalDataSet_save E data s0 = (Inl e, s3))
   \<and> (no_file_on (fs w) (butlast (abs_key w (save_target self w))) \<longrightarrow>
      node_at (fs w) (abs_key w (save_target self w)) \<noteq> Some Dir \<longrightarrow>
      parts (filepath self) \<noteq> [] \<longrightarrow>
      encode C v = Inr b \<longrightarrow>
      version_consistent self w \<longrightarrow>
      (\<exists>t. FeatherLocalDataSet_save (core_env C) v (self, w)
               = (Inr (), (self, w\<lparr>fs := (abs_key w (save_target self w), File b) # t\<rparr>))
            \<and> node_at t (butlast (abs_key w (save_target self w))) = Some Dir
            \<and> grows_on (butlast (abs_key w (save_target self w))) (fs w) t))"
proof (intro conjI impI)
  assume "get_save_path E s0 = (Inr sp, s1)" and "mkdir E (parent sp) True True s1 = (Inl e, s2)"
  then show "FeatherLocalDataSet_save E data s0 = (Inl e, s2)"
    by (simp add: FeatherLocalDataSet_save_def bind_exn_def)
next
  assume "get_save_path E s0 = (Inr sp, s1)" and "mkdir E (parent sp) True True s1 = (Inr u, s2)"
    and "to_feather E data sp s2 = (Inl e, s3)"
  then show "FeatherLocalDataSet_save E data s0 = (Inl e, s3)"
    by (simp add: FeatherLocalDataSet_save_def bind_exn_def)
next
  assume "no_file_on (fs w) (butlast (abs_key w (save_target self w)))"
    and "node_at (fs w) (abs_key w (save_target self w)) \<noteq> Some Dir"
    and "parts (filepath self) \<noteq> []"
    and "encode C v = Inr b"
    and "version_consistent self w"
  then show "\<exists>t. FeatherLocalDataSet_save (core_env C) v (self, w)
               = (Inr (), (self, w\<lparr>fs := (abs_key w (save_target self w), File b) # t\<rparr>))
            \<and> node_at t (butlast (abs_key w (save_target self w))) = Some Dir
            \<and> grows_on (butlast (abs_key w (save_target self w))) (fs w) t"
    by (rule save_succeeds)
qed

lemma blocked_mkdir:
  "mkdir_parents True [''home'', ''data'']
     [([''home'', ''data''], File [(''x'', 0 :: int)]), ([''home''], Dir)]
   = Inl ''FileExistsError''"
  by code_simp

theorem save_makes_parent_directories_witness:
  "FeatherLocalDataSet_save (core_env frame_codec) [(''a'', 1)] (plain_data_set, blocked_world)
     = (Inl (OtherError ''FileExistsError''), (plain_data_set, blocked_world))
   \<and> FeatherLocalDataSet_save (core_env frame_codec) [(''a'', 1), (''a'', 2)]
       (plain_data_set, empty_world)
     = (Inl (OtherError ''ValueError''),
        (plain_data_set, empty_world\<lparr>fs := [([''home'', ''data''], Dir), ([''home''], Dir)]\<rparr>))
   \<and> (\<exists>t. FeatherLocalDataSet_save (core_env frame_codec) [(''a'', 1)]
              (versioned_data_set, empty_world)
            = (Inr (), (versioned_data_set,
                 empty_world\<lparr>fs :=
                   ([''home'', ''data'', ''test.feather'', ''2019-01-01'', ''test.feather''],
                    File [(''a'', 1)]) # t\<rparr>))
          \<and> node_at t [''home'', ''data'', ''test.feather'', ''2019-01-01''] = Some Dir
          \<and> grows_on [''home'', ''data'', ''test.feather'', ''2019-01-01''] [] t)"
proof -
  let ?E = "core_env frame_codec"
  let ?p = "Path False [''data'', ''test.feather'']"
  let ?s = "(plain_data_set, blocked_world)"
  let ?u = "(plain_data_set, empty_world)"
  let ?u2 = "(plain_data_set, empty_world\<lparr>fs := [([''home'', ''data''], Dir), ([''home''], Dir)]\<rparr>)"
  note main = save_makes_parent_directories
  have a1: "get_save_path ?E ?s = (Inr ?p, ?s)"
    by (simp add: core_env_fields core_get_save_path_def plain_data_set_fields)
  have a2: "mkdir ?E (parent ?p) True True ?s = (Inl (OtherError ''FileExistsError''), ?s)"
    by (simp add: core_env_fields core_mkdir_def parent_def abs_key_def path_mkdir_def
        blocked_world_def blocked_mkdir)
  have b1: "get_save_path ?E ?u = (Inr ?p, ?u)"
    by (simp add: core_env_fields core_get_save_path_def plain_data_set_fields)
  have b2: "mkdir ?E (parent ?p) True True ?u = (Inr (), ?u2)"
    by (simp add: core_env_fields core_mkdir_def parent_def abs_key_def path_mkdir_def
        empty_world_def plain_dirs)
  have b3: "to_feather ?E [(''a'', 1), (''a'', 2)] ?p ?u2 = (Inl (OtherError ''ValueError''), ?u2)"
    by (simp add: core_env_fields core_to_feather_def frame_codec_def)
  have k: "abs_key empty_world (save_target versioned_data_set empty_world)
             = [''home'', ''data'', ''test.feather'', ''2019-01-01'', ''test.feather'']"
    by (simp add: save_target_def versioned_data_set_fields get_versioned_path_def abs_key_def
        empty_world_def)
  have c1: "no_file_on (fs empty_world)
              (butlast (abs_key empty_world (save_target versioned_data_set empty_world)))"
    by (simp add: no_file_on_def node_at_def empty_world_def)
  have c2: "node_at (fs empty_world)
              (abs_key empty_world (save_target versioned_data_set empty_world)) \<noteq> Some Dir"
    by (simp add: k) (simp add: node_at_def empty_world_def)
  have c3: "parts (filepath versioned_data_set) \<noteq> []"
    by (simp add: versioned_data_set_fields)
  have c4: "encode frame_codec [(''a'', 1)] = Inr [(''a'', 1)]"
    by (simp add: frame_codec_def)
  have c5: "version_consistent versioned_data_set empty_world"
    by (simp add: version_consistent_def versioned_data_set_fields fs_is_file_def node_at_def
        empty_world_def)
  have 1: "FeatherLocalDataSet_save ?E [(''a'', 1)] ?s = (Inl (OtherError ''FileExistsError''), ?s)"
    using main [THEN conjunct1, THEN mp, THEN mp, OF a1 a2] .
  have 2: "FeatherLocalDataSet_save ?E [(''a'', 1), (''a'', 2)] ?u
             = (Inl (OtherError ''ValueError''), ?u2)"
    using main [THEN conjunct2, THEN conjunct1, THEN mp, THEN mp, THEN mp, OF b1 b2 b3] .
  have 3: "\<exists>t. FeatherLocalDataSet_save ?E [(''a'', 1)] (versioned_data_set, empty_world)
            = (Inr (), (versioned_data_set,
                 empty_world\<lparr>fs :=
                   ([''home'', ''data'', ''test.feather'', ''2019-01-01'', ''test.feather''],
                    File [(''a'', 1)]) # t\<rparr>))
          \<and> node_at t [''home'', ''data'', ''test.feather'', ''2019-01-01''] = Some Dir
          \<and> grows_on [''home'', ''data'', ''test.feather'', ''2019-01-01''] [] t"
    using main [THEN conjunct2, THEN conjunct2, THEN mp, THEN mp, THEN mp, THEN mp, THEN mp,
        OF c1 c2 c3 c4 c5]
    by (simp add: k) (simp add: empty_world_def)
  from 1 2 3 show ?thesis by blast
qed

section \<open>The consistency check of a save\<close>

lemma fs_write_parent: "fs_write k b t = Inr t' \<Longrightarrow> node_at t (butlast k) = Some Dir"
  by (auto simp add: fs_write_def split: option.splits node.splits)

lemma version_written_is_saved:
  assumes ne: "parts fp \<noteq> []"
      and f: "fs w = (abs_key w fp @ [sid, last (parts fp)], File b) # t"
      and d: "node_at t (abs_key w fp @ [sid]) = Some Dir"
  shows "sid \<in> set (saved_versions w fp)"
proof -
  let ?a = "abs_key w fp"
  from d have "(?a @ [sid], Dir) \<in> set t" by (rule node_at_DirD)
  with f have "(?a @ [sid], Dir) \<in> set (fs w)" by simp
  then have "sid \<in> set (children (fs w) ?a)" by (rule children_mem)
  moreover from d f have "node_at (fs w) (?a @ [sid]) = Some Dir" by (simp add: node_at_Cons)
  ultimately have "sid \<in> set (version_dirs w fp)" by (simp add: version_dirs_def)
  moreover from ne f have "fs_is_file w (get_versioned_path fp sid)"
    by (simp add: fs_is_file_def abs_key_versioned node_at_Cons)
  ultimately show ?thesis by (simp add: saved_versions_def)
qed

lemma load_path_resolves_after_write:
  assumes 1: "core_get_save_path t0 = (Inr q, t1)"
      and 2: "core_mkdir (parent q) True True t1 = (Inr u, t2)"
      and 3: "core_to_feather C v q t2 = (Inr u', t3)"
      and ne: "parts (filepath (fst t0)) \<noteq> []"
  shows "\<exists>lp. core_get_load_path t3 = (Inr lp, t3)"
proof -
  let ?fp = "filepath (fst t0)"
  from core_to_feather_Inr [OF 3] obtain b where
        f3: "fst t3 = fst t2" and c3: "cwd (snd t3) = cwd (snd t2)"
    and t3: "fs (snd t3) = (abs_key (snd t2) q, File b) # fs (snd t2)"
    by blast
  from core_get_save_path_frame [OF 1] core_mkdir_frame [OF 2] f3
  have self: "fst t3 = fst t0" by simp
  show ?thesis
  proof (cases "version (fst t0)")
    case None
    with self show ?thesis by (simp add: core_get_load_path_def)
  next
    case (Some ver)
    show ?thesis
    proof (cases "load ver")
      case (Some i)
      with \<open>version (fst t0) = Some ver\<close> self show ?thesis
        by (simp add: core_get_load_path_def)
    next
      case None
      let ?sid = "case save ver of Some j \<Rightarrow> j | None \<Rightarrow> now (snd t0)"
      from 1 \<open>version (fst t0) = Some ver\<close> have q: "q = get_versioned_path ?fp ?sid"
        by (auto simp add: core_get_save_path_def Let_def split: sum.splits
            cong: option.case_cong)
      from c3 have k: "abs_key (snd t2) q = abs_key (snd t3) q" by (simp add: abs_key_def)
      with q ne have k': "abs_key (snd t2) q = abs_key (snd t3) ?fp @ [?sid, last (parts ?fp)]"
        by (simp add: abs_key_versioned)
      from 3 obtain t' where "fs_write (abs_key (snd t2) q) b (fs (snd t2)) = Inr t'"
        using core_to_feather_Inr [OF 3] t3
        by (auto simp add: core_to_feather_def split: sum.splits)
      then have "node_at (fs (snd t2)) (butlast (abs_key (snd t2) q)) = Some Dir"
        by (rule fs_write_parent)
      with k' have d: "node_at (fs (snd t2)) (abs_key (snd t3) ?fp @ [?sid]) = Some Dir"
        by (simp add: butlast_append)
      from t3 k' have "fs (snd t3)
          = (abs_key (snd t3) ?fp @ [?sid, last (parts ?fp)], File b) # fs (snd t2)"
        by simp
      from version_written_is_saved [OF ne this d]
      have "saved_versions (snd t3) ?fp \<noteq> []" by auto
      with None \<open>version (fst t0) = Some ver\<close> self show ?thesis
        by (simp add: core_get_load_path_def latest_version_Max)
    qed
  qed
qed

lemma save_after_write:
  assumes "get_save_path E s0 = (Inr sp, s1)"
      and "mkdir E (parent sp) True True s1 = (Inr u, s2)"
      and "to_feather E data sp s2 = (Inr u', s3)"
      and "get_load_path E s3 = (Inr lp, s4)"
      and "absolute E lp s4 = (Inr alp, s5)"
      and "absolute E sp s5 = (Inr asp, s6)"
  shows "FeatherLocalDataSet_save E data s0 = check_paths_consistency E alp asp s6"
  using assms by (simp add: FeatherLocalDataSet_save_def bind_exn_def)

text \<open>
  C1. In \<^verbatim>\<open>_save\<close>, once the writer has returned and the load path has been resolved
  again, on the state the writer left, what is left of the call is one call of the
  consistency check, on the absolute load path and the absolute save path: its outcome is
  the outcome of \<^verbatim>\<open>_save\<close>. With the contract's checker the call fails with
  \<^verbatim>\<open>InconsistentVersionError\<close> whenever the two absolute paths differ. With the
  contract's resolution on the file system, the resolution of the load path after a
  write that returned does not fail, so the check is reached.
\<close>

theorem save_checks_consistency_once:
  "(get_save_path E s0 = (Inr sp, s1) \<longrightarrow>
    mkdir E (parent sp) True True s1 = (Inr u, s2) \<longrightarrow>
    to_feather E data sp s2 = (Inr u', s3) \<longrightarrow>
    get_load_path E s3 = (Inr lp, s4) \<longrightarrow>
    absolute E lp s4 = (Inr alp, s5) \<longrightarrow>
    absolute E sp s5 = (Inr asp, s6) \<longrightarrow>
      FeatherLocalDataSet_save E data s0 = check_paths_consistency E alp asp s6
      \<and> (check_paths_consistency E = core_check_paths_consistency \<longrightarrow> alp \<noteq> asp \<longrightarrow>
           FeatherLocalDataSet_save E data s0
             = (Inl (InconsistentVersionError (describe_payload (fst s6))), s6)))
   \<and> (core_get_save_path t0 = (Inr q, t1) \<longrightarrow>
      core_mkdir (parent q) True True t1 = (Inr x, t2) \<longrightarrow>
      core_to_feather C v q t2 = (Inr x', t3) \<longrightarrow>
      parts (filepath (fst t0)) \<noteq> [] \<longrightarrow>
        (\<exists>p. core_get_load_path t3 = (Inr p, t3)
           \<and> FeatherLocalDataSet_save (core_env C) v t0
               = core_check_paths_consistency
                   (Path True (abs_key (snd t3) p)) (Path True (abs_key (snd t3) q)) t3))"
proof (intro conjI impI)
  assume a: "get_save_path E s0 = (Inr sp, s1)" "mkdir E (parent sp) True True s1 = (Inr u, s2)"
    "to_feather E data sp s2 = (Inr u', s3)" "get_load_path E s3 = (Inr lp, s4)"
    "absolute E lp s4 = (Inr alp, s5)" "absolute E sp s5 = (Inr asp, s6)"
  then show "FeatherLocalDataSet_save E data s0 = check_paths_consistency E alp asp s6"
    by (rule save_after_write)
  assume "check_paths_consistency E = core_check_paths_consistency" and "alp \<noteq> asp"
  with save_after_write [OF a]
  show "FeatherLocalDataSet_save E data s0
          = (Inl (InconsistentVersionError (describe_payload (fst s6))), s6)"
    by (simp add: core_check_paths_consistency_def)
next
  assume b: "core_get_save_path t0 = (Inr q, t1)" "core_mkdir (parent q) True True t1 = (Inr x, t2)"
    "core_to_feather C v q t2 = (Inr x', t3)" "parts (filepath (fst t0)) \<noteq> []"
  from load_path_resolves_after_write [OF b] obtain p where
    p: "core_get_load_path t3 = (Inr p, t3)" by blast
  have c: "get_save_path (core_env C) t0 = (Inr q, t1)"
    "mkdir (core_env C) (parent q) True True t1 = (Inr x, t2)"
    "to_feather (core_env C) v q t2 = (Inr x', t3)"
    "get_load_path (core_env C) t3 = (Inr p, t3)"
    "absolute (core_env C) p t3 = (Inr (Path True (abs_key (snd t3) p)), t3)"
    "absolute (core_env C) q t3 = (Inr (Path True (abs_key (snd t3) q)), t3)"
    by (simp_all add: core_env_fields b p core_absolute_def)
  have "FeatherLocalDataSet_save (core_env C) v t0
          = check_paths_consistency (core_env C)
              (Path True (abs_key (snd t3) p)) (Path True (abs_key (snd t3) q)) t3"
    by (rule save_after_write [OF c])
  with p show "\<exists>p. core_get_load_path t3 = (Inr p, t3)
           \<and> FeatherLocalDataSet_save (core_env C) v t0
               = core_check_paths_consistency
                   (Path True (abs_key (snd t3) p)) (Path True (abs_key (snd t3) q)) t3"
    by (auto simp add: core_env_fields)
qed

lemma pinned_dirs:
  "mkdir_parents True [''home'', ''data'', ''test.feather'', ''v2'']
     ([] :: (string list \<times> (string \<times> int) list node) list)
   = Inr [([''home'', ''data'', ''test.feather'', ''v2''], Dir),
          ([''home'', ''data'', ''test.feather''], Dir),
          ([''home'', ''data''], Dir),
          ([''home''], Dir)]"
  by code_simp

theorem save_checks_consistency_once_witness:
  "FeatherLocalDataSet_save (core_env frame_codec) [(''a'', 1)] (pinned_data_set, empty_world)
     = (Inl (InconsistentVersionError (describe_payload pinned_data_set)),
        (pinned_data_set,
         empty_world\<lparr>fs :=
           [([''home'', ''data'', ''test.feather'', ''v2'', ''test.feather''], File [(''a'', 1)]),
            ([''home'', ''data'', ''test.feather'', ''v2''], Dir),
            ([''home'', ''data'', ''test.feather''], Dir),
            ([''home'', ''data''], Dir),
            ([''home''], Dir)]\<rparr>))
   \<and> (\<exists>p. core_get_load_path (versioned_data_set, one_version_world\<lparr>now := ''2019-01-01''\<rparr>)
            = (Inr p, (versioned_data_set, one_version_world\<lparr>now := ''2019-01-01''\<rparr>))
          \<and> FeatherLocalDataSet_save (core_env frame_codec) [(''a'', 1)]
               (versioned_data_set, empty_world)
            = core_check_paths_consistency
                (Path True (abs_key (one_version_world\<lparr>now := ''2019-01-01''\<rparr>) p))
                (Path True [''home'', ''data'', ''test.feather'', ''2019-01-01'', ''test.feather''])
                (versioned_data_set, one_version_world\<lparr>now := ''2019-01-01''\<rparr>))"
proof -
  let ?E = "core_env frame_codec"
  let ?d = "[([''home'', ''data'', ''test.feather'', ''v2''], Dir),
            ([''home'', ''data'', ''test.feather''], Dir),
            ([''home'', ''data''], Dir),
            ([''home''], Dir)] :: (string list \<times> (string \<times> int) list node) list"
  let ?k = "[''home'', ''data'', ''test.feather'', ''v2'', ''test.feather'']"
  let ?sp = "Path False [''data'', ''test.feather'', ''v2'', ''test.feather'']"
  let ?lp = "Path False [''data'', ''test.feather'', ''v1'', ''test.feather'']"
  let ?s0 = "(pinned_data_set, empty_world)"
  let ?s1 = "(pinned_data_set, empty_world\<lparr>fs := ?d\<rparr>)"
  let ?s3 = "(pinned_data_set, empty_world\<lparr>fs := (?k, File [(''a'', 1)]) # ?d\<rparr>)"
  have 1: "get_save_path ?E ?s0 = (Inr ?sp, ?s1)"
    by (simp add: core_env_fields core_get_save_path_def pinned_data_set_fields
        get_versioned_path_def parent_def abs_key_def path_mkdir_def empty_world_def pinned_dirs
        Let_def)
  have 2: "mkdir ?E (parent ?sp) True True ?s1 = (Inr (), ?s1)"
    by (simp add: core_env_fields core_mkdir_def parent_def abs_key_def path_mkdir_def
        empty_world_def mkdir_parents_again node_at_def)
  have 3: "to_feather ?E [(''a'', 1)] ?sp ?s1 = (Inr (), ?s3)"
    by (simp add: core_env_fields core_to_feather_def frame_codec_def abs_key_def fs_write_def
        node_at_def empty_world_def)
  have 4: "get_load_path ?E ?s3 = (Inr ?lp, ?s3)"
    by (simp add: core_env_fields core_get_load_path_def pinned_data_set_fields
        get_versioned_path_def)
  have 5: "absolute ?E ?lp ?s3
             = (Inr (Path True [''home'', ''data'', ''test.feather'', ''v1'', ''test.feather'']), ?s3)"
    by (simp add: core_env_fields core_absolute_def abs_key_def empty_world_def)
  have 6: "absolute ?E ?sp ?s3 = (Inr (Path True ?k), ?s3)"
    by (simp add: core_env_fields core_absolute_def abs_key_def empty_world_def)
  have 7: "check_paths_consistency ?E = core_check_paths_consistency"
    by (simp add: core_env_fields)
  have 8: "Path True [''home'', ''data'', ''test.feather'', ''v1'', ''test.feather'']
             \<noteq> Path True ?k"
    by simp
  note main = save_checks_consistency_once
  have A: "FeatherLocalDataSet_save ?E [(''a'', 1)] ?s0
             = (Inl (InconsistentVersionError (describe_payload pinned_data_set)), ?s3)"
    using main [THEN conjunct1, THEN mp, THEN mp, THEN mp, THEN mp, THEN mp, THEN mp,
        OF 1 2 3 4 5 6, THEN conjunct2, THEN mp, THEN mp, OF 7 8]
    by simp
  let ?q = "Path False [''data'', ''test.feather'', ''2019-01-01'', ''test.feather'']"
  let ?e = "[([''home'', ''data'', ''test.feather'', ''2019-01-01''], Dir),
            ([''home'', ''data'', ''test.feather''], Dir),
            ([''home'', ''data''], Dir),
            ([''home''], Dir)] :: (string list \<times> (string \<times> int) list node) list"
  let ?t0 = "(versioned_data_set, empty_world)"
  let ?t1 = "(versioned_data_set, empty_world\<lparr>fs := ?e\<rparr>)"
  let ?t3 = "(versioned_data_set, one_version_world\<lparr>now := ''2019-01-01''\<rparr>)"
  have md: "mkdir_parents True [''home'', ''data'', ''test.feather'', ''2019-01-01'']
              ([] :: (string list \<times> (string \<times> int) list node) list) = Inr ?e"
    by code_simp
  have b1: "core_get_save_path ?t0 = (Inr ?q, ?t1)"
    by (simp add: core_get_save_path_def versioned_data_set_fields get_versioned_path_def
        parent_def abs_key_def path_mkdir_def empty_world_def md Let_def)
  have b2: "core_mkdir (parent ?q) True True ?t1 = (Inr (), ?t1)"
    by (simp add: core_mkdir_def parent_def abs_key_def path_mkdir_def empty_world_def
        mkdir_parents_again node_at_def)
  have b3: "core_to_feather frame_codec [(''a'', 1)] ?q ?t1 = (Inr (), ?t3)"
    by (simp add: core_to_feather_def frame_codec_def abs_key_def fs_write_def node_at_def
        empty_world_def one_version_world_def)
  have b4: "parts (filepath (fst ?t0)) \<noteq> []"
    by (simp add: versioned_data_set_fields)
  have k: "abs_key (one_version_world\<lparr>now := ''2019-01-01''\<rparr>) ?q
             = [''home'', ''data'', ''test.feather'', ''2019-01-01'', ''test.feather'']"
    by (simp add: abs_key_def one_version_world_def)
  have B: "\<exists>p. core_get_load_path ?t3 = (Inr p, ?t3)
          \<and> FeatherLocalDataSet_save ?E [(''a'', 1)] ?t0
            = core_check_paths_consistency
                (Path True (abs_key (one_version_world\<lparr>now := ''2019-01-01''\<rparr>) p))
                (Path True [''home'', ''data'', ''test.feather'', ''2019-01-01'', ''test.feather''])
                ?t3"
    using main [THEN conjunct2, THEN mp, THEN mp, THEN mp, THEN mp, OF b1 b2 b3 b4]
    by (simp add: k)
  from A B show ?thesis by blast
qed

end
